theory Spec2Isabelle
  imports Main "HOL-Library.AList" "HOL-Library.Sublist"
begin

section \<open>PlayFabManualTest.py: values, state and effects\<close>

text \<open>
  The script is a module executed top to bottom. Its data are untyped payloads
  decoded from the vendor's responses and the request dictionaries it builds. The
  model keeps
  \<^item> payloads as a datatype of JSON-like Python values (numbers are the integers),
    with callable objects beside them;
  \<^item> the module namespace as a map from the data names the script binds to what they
    are bound to: a plain value, or a reference to a dictionary object in a store;
  \<^item> the attributes of \<^verbatim>\<open>PlayFabSettings\<close> as a map from attribute names to values;
  \<^item> everything the script does to the outside, and every access to the namespace
    and to \<^verbatim>\<open>PlayFabSettings\<close>, as an event appended to a trace.
  Names bound by \<^verbatim>\<open>def\<close> and \<^verbatim>\<open>import\<close> are the program's structure and are
  not part of the namespace map; \<^verbatim>\<open>from playfab import *\<close> is taken to bind only the
  vendor's modules.
\<close>

datatype var =
    request | customId | etRequest | EntityKey
  | eoRequest | eoRequest2 | titleDataRequest | titleDataRequest2

datatype exn =
    KeyError string
  | TypeError
  | NameError var
  | AttributeError string
  | PlayFabException string
  | OtherError string

text \<open>
  The last constructor is a callable object, as the vendor's
  \<^verbatim>\<open>PlayFabSettings.GlobalExceptionLogger\<close> is one. The script calls such an object
  at one place and with one argument, so all that is kept of it is what that call does:
  it returns (\<open>None\<close>) or it raises an exception.
\<close>

datatype pyval =
    PyNone
  | PyBool bool
  | PyInt int
  | PyStr string
  | PyList "pyval list"
  | PyDict "(string \<times> pyval) list"
  | PyCallable "exn option"

text \<open>Python's truth value testing, as \<^verbatim>\<open>if fail:\<close> applies it.\<close>

fun truthy :: "pyval \<Rightarrow> bool" where
  "truthy PyNone = False"
| "truthy (PyBool b) = b"
| "truthy (PyInt i) = (i \<noteq> 0)"
| "truthy (PyStr s) = (s \<noteq> [])"
| "truthy (PyList xs) = (xs \<noteq> [])"
| "truthy (PyDict d) = (d \<noteq> [])"
| "truthy (PyCallable r) = True"

text \<open>
  \<^verbatim>\<open>obj[key]\<close> with a string key: a dictionary raises KeyError on a missing key; None,
  booleans, integers and callables are not subscriptable, and lists and strings take
  integer indices only, so all of them raise TypeError.
\<close>

fun getitem :: "pyval \<Rightarrow> string \<Rightarrow> exn + pyval" where
  "getitem (PyDict d) k = (case map_of d k of None \<Rightarrow> Inl (KeyError k) | Some x \<Rightarrow> Inr x)"
| "getitem PyNone k = Inl TypeError"
| "getitem (PyBool b) k = Inl TypeError"
| "getitem (PyInt i) k = Inl TypeError"
| "getitem (PyStr s) k = Inl TypeError"
| "getitem (PyList xs) k = Inl TypeError"
| "getitem (PyCallable r) k = Inl TypeError"

type_synonym addr = nat

datatype binding = Val pyval | Ref addr

datatype api = LoginWithCustomID | GetEntityToken | GetObjects | GetTitleData

datatype event =
    is_SettingsWrite: SettingsWrite string pyval
  | is_SettingsRead: SettingsRead string
  | is_SettingsCall: SettingsCall string exn
  | is_GlobalWrite: GlobalWrite var binding
  | is_GlobalRead: GlobalRead var
  | is_ApiCall: ApiCall api binding
  | is_Print: Print pyval

record state =
  globals :: "var \<rightharpoonup> binding"
  heap :: "addr \<rightharpoonup> (string \<times> binding) list"
  nalloc :: nat
  settings :: "string \<rightharpoonup> pyval"
  ncalls :: nat
  trace :: "event list"

datatype 'a res = Ok 'a state | Err exn state

type_synonym 'a py = "state \<Rightarrow> 'a res"
type_synonym stmt = "unit py"

fun state_of :: "'a res \<Rightarrow> state" where
  "state_of (Ok x st) = st"
| "state_of (Err e st) = st"

definition emit :: "event \<Rightarrow> state \<Rightarrow> state" where
  "emit ev st = st\<lparr>trace := trace st @ [ev]\<rparr>"

text \<open>A block of statements runs in order and stops at the first exception.\<close>

fun exec :: "stmt list \<Rightarrow> stmt" where
  "exec [] st = Ok () st"
| "exec (s # ss) st = (case s st of Ok u st' \<Rightarrow> exec ss st' | Err e st' \<Rightarrow> Err e st')"

subsection \<open>Expressions\<close>

definition const :: "pyval \<Rightarrow> binding py" where
  "const x st = Ok (Val x) st"

text \<open>Loading a module-level name: NameError when it is unbound.\<close>

definition name :: "var \<Rightarrow> binding py" where
  "name x st =
     (let st1 = emit (GlobalRead x) st in
      case globals st x of None \<Rightarrow> Err (NameError x) st1 | Some b \<Rightarrow> Ok b st1)"

text \<open>\<^verbatim>\<open>PlayFabSettings.a\<close>: AttributeError when the attribute is not set.\<close>

definition settings_attr :: "string \<Rightarrow> binding py" where
  "settings_attr a st =
     (let st1 = emit (SettingsRead a) st in
      case settings st a of None \<Rightarrow> Err (AttributeError a) st1 | Some x \<Rightarrow> Ok (Val x) st1)"

text \<open>
  A dictionary display \<^verbatim>\<open>{k1: e1, ...}\<close>: the values are evaluated left to right,
  then a new dictionary object is allocated.
\<close>

fun eval_items :: "(string \<times> binding py) list \<Rightarrow> (string \<times> binding) list py" where
  "eval_items [] st = Ok [] st"
| "eval_items ((k, e) # rest) st =
     (case e st of
        Err x st1 \<Rightarrow> Err x st1
      | Ok b st1 \<Rightarrow>
          (case eval_items rest st1 of
             Err x st2 \<Rightarrow> Err x st2
           | Ok items st2 \<Rightarrow> Ok ((k, b) # items) st2))"

definition dict_display :: "(string \<times> binding py) list \<Rightarrow> binding py" where
  "dict_display kes st =
     (case eval_items kes st of
        Err x st1 \<Rightarrow> Err x st1
      | Ok items st1 \<Rightarrow>
          Ok (Ref (nalloc st1))
             (st1\<lparr>heap := (heap st1)(nalloc st1 \<mapsto> items), nalloc := Suc (nalloc st1)\<rparr>))"

subsection \<open>Statements\<close>

text \<open>\<^verbatim>\<open>x = e\<close> at module level, and \<^verbatim>\<open>global x; x = e\<close> in a function.\<close>

definition assign :: "var \<Rightarrow> binding py \<Rightarrow> stmt" where
  "assign x e st =
     (case e st of
        Err ex st1 \<Rightarrow> Err ex st1
      | Ok b st1 \<Rightarrow> Ok () (emit (GlobalWrite x b) (st1\<lparr>globals := (globals st1)(x \<mapsto> b)\<rparr>)))"

text \<open>
  \<^verbatim>\<open>PlayFabSettings.a = e\<close>. The values the script stores there come from the settings
  module and are plain values; a reference cannot be stored in this model's settings
  map and is a TypeError of the model.
\<close>

definition settings_assign :: "string \<Rightarrow> binding py \<Rightarrow> stmt" where
  "settings_assign a e st =
     (case e st of
        Err ex st1 \<Rightarrow> Err ex st1
      | Ok (Val x) st1 \<Rightarrow>
          Ok () (emit (SettingsWrite a x) (st1\<lparr>settings := (settings st1)(a \<mapsto> x)\<rparr>))
      | Ok (Ref r) st1 \<Rightarrow> Err TypeError st1)"

text \<open>
  \<^verbatim>\<open>x[k] = e\<close>: the right-hand side is evaluated first, then the target; only a
  dictionary object supports item assignment with a string key.
\<close>

definition store_subscr :: "var \<Rightarrow> string \<Rightarrow> binding py \<Rightarrow> stmt" where
  "store_subscr x k e st =
     (case e st of
        Err ex st1 \<Rightarrow> Err ex st1
      | Ok b st1 \<Rightarrow>
          (case name x st1 of
             Err ex st2 \<Rightarrow> Err ex st2
           | Ok (Val y) st2 \<Rightarrow> Err TypeError st2
           | Ok (Ref a) st2 \<Rightarrow>
               (case heap st2 a of
                  None \<Rightarrow> Err TypeError st2
                | Some d \<Rightarrow> Ok () (st2\<lparr>heap := (heap st2)(a \<mapsto> AList.update k b d)\<rparr>))))"

definition print :: "pyval \<Rightarrow> stmt" where
  "print x st = Ok () (emit (Print x) st)"

text \<open>
  \<^verbatim>\<open>PlayFabSettings.GlobalExceptionLogger(e)\<close>: the attribute is loaded and the object
  found there is called with the exception. The load raises AttributeError when the
  attribute is not set, the call raises TypeError when the object is not callable, and a
  callable returns or raises as it decides. \<open>logger_outcome\<close> is what the expression
  raises under given settings, \<open>None\<close> when it returns. The event records that the
  script evaluates the expression, whatever comes of it.
\<close>

definition logger_outcome :: "(string \<rightharpoonup> pyval) \<Rightarrow> exn option" where
  "logger_outcome s =
     (case s ''GlobalExceptionLogger'' of
        None \<Rightarrow> Some (AttributeError ''GlobalExceptionLogger'')
      | Some (PyCallable r) \<Rightarrow> r
      | Some x \<Rightarrow> Some TypeError)"

definition global_exception_logger :: "exn \<Rightarrow> stmt" where
  "global_exception_logger e st =
     (let st1 = emit (SettingsCall ''GlobalExceptionLogger'' e) st in
      case logger_outcome (settings st) of None \<Rightarrow> Ok () st1 | Some ex \<Rightarrow> Err ex st1)"

text \<open>
  \<^verbatim>\<open>try: body except PlayFabErrors.PlayFabException as e: handler\<close>. An instance of the
  vendor's exception class (or of a subclass) is \<open>PlayFabException\<close>; every other
  exception passes through. The handler receives the exception as its argument; the name
  \<^verbatim>\<open>e\<close> it is bound to is used nowhere else and is not kept in the namespace map.
\<close>

fun is_PlayFabException :: "exn \<Rightarrow> bool" where
  "is_PlayFabException (PlayFabException m) = True"
| "is_PlayFabException e = False"

definition try_except_PlayFabException :: "stmt list \<Rightarrow> (exn \<Rightarrow> stmt list) \<Rightarrow> stmt" where
  "try_except_PlayFabException body handler st =
     (case exec body st of
        Ok u st1 \<Rightarrow> Ok u st1
      | Err e st1 \<Rightarrow> if is_PlayFabException e then exec (handler e) st1 else Err e st1)"

subsection \<open>The vendor's API\<close>

text \<open>
  The API wrappers are the vendor's code. What a call does to the script is: it invokes
  the callback it was given some number of times with a pair (success, fail), and it
  returns or raises. An exception raised by the callback either propagates out of the
  call or is swallowed by the vendor, which then goes on. The vendor is a parameter:
  \<open>v n\<close> is the outcome of the call made when \<open>n\<close> calls have been made before, so
  that a vendor may answer each call of the script in any way. What the vendor's code
  keeps for itself during a call (session tickets, entity tokens) is not modelled: the
  settings map and the namespace change by the script's own statements only.
\<close>

record outcome =
  invocations :: "(pyval \<times> pyval) list"
  catches :: bool
  raises :: "exn option"

type_synonym vendor = "nat \<Rightarrow> outcome"
type_synonym callback = "pyval \<Rightarrow> pyval \<Rightarrow> stmt"

fun invoke_all :: "callback \<Rightarrow> bool \<Rightarrow> (pyval \<times> pyval) list \<Rightarrow> stmt" where
  "invoke_all cb c [] st = Ok () st"
| "invoke_all cb c ((s, f) # rest) st =
     (case cb s f st of
        Ok u st1 \<Rightarrow> invoke_all cb c rest st1
      | Err e st1 \<Rightarrow> if c then invoke_all cb c rest st1 else Err e st1)"

definition call_api :: "vendor \<Rightarrow> api \<Rightarrow> binding py \<Rightarrow> callback \<Rightarrow> stmt" where
  "call_api v a req cb st =
     (case req st of
        Err e st1 \<Rightarrow> Err e st1
      | Ok r st1 \<Rightarrow>
          (let out = v (ncalls st1);
               st2 = emit (ApiCall a r) (st1\<lparr>ncalls := Suc (ncalls st1)\<rparr>) in
           case invoke_all cb (catches out) (invocations out) st2 of
             Err e st3 \<Rightarrow> Err e st3
           | Ok u st3 \<Rightarrow> (case raises out of None \<Rightarrow> Ok () st3 | Some e \<Rightarrow> Err e st3)))"

subsection \<open>The callbacks\<close>

definition loginCallback :: callback where
  "loginCallback success fail =
     (if truthy fail then print fail else print success)"

definition entityTokenCallback :: callback where
  "entityTokenCallback success fail =
     (if truthy fail then print fail
      else exec
        [assign EntityKey
           (\<lambda>st. case getitem success ''Entity'' of Inl e \<Rightarrow> Err e st | Inr x \<Rightarrow> Ok (Val x) st),
         print success])"

definition entityObjectCallback :: callback where
  "entityObjectCallback success fail =
     (if truthy fail then print fail else print success)"

definition titleDataReqCallback :: callback where
  "titleDataReqCallback success fail =
     (if truthy fail then print fail else print success)"

subsection \<open>The script\<close>

text \<open>
  \<^verbatim>\<open>PlayFabManualTestSettings\<close> is a module of three values that is not part of the
  script; it is a parameter.
\<close>

record test_settings =
  TitleId :: pyval
  customId' :: pyval
  DeveloperSeceretKey :: pyval

definition script :: "test_settings \<Rightarrow> vendor \<Rightarrow> stmt list" where
  "script ts v =
    [settings_assign ''TitleId'' (const (TitleId ts)),
     assign customId (const (customId' ts)),
     assign request (dict_display []),
     store_subscr request ''CreateAccount'' (const (PyBool True)),
     store_subscr request ''CustomId'' (name customId),
     store_subscr request ''TitleId'' (settings_attr ''TitleId''),
     store_subscr request ''LoginTitlePlayerAccountEntity'' (const (PyBool True)),
     call_api v LoginWithCustomID (name request) loginCallback,
     assign etRequest (dict_display []),
     call_api v GetEntityToken (name etRequest) entityTokenCallback,
     assign eoRequest (dict_display []),
     call_api v GetObjects (name etRequest) entityObjectCallback,
     assign eoRequest2 (dict_display [(''Entity'', name EntityKey)]),
     call_api v GetObjects (name eoRequest2) entityObjectCallback,
     try_except_PlayFabException
       [assign titleDataRequest (dict_display []),
        call_api v GetTitleData (name titleDataRequest) titleDataReqCallback]
       (\<lambda>e. [print (PyStr ''Caught expected error''),
             global_exception_logger e]),
     settings_assign ''DeveloperSecretKey'' (const (DeveloperSeceretKey ts)),
     assign titleDataRequest2 (dict_display []),
     call_api v GetTitleData (name titleDataRequest) titleDataReqCallback]"

text \<open>
  The state the module starts in: no data name bound, no dictionary allocated, the
  vendor's settings as the vendor initialised them.
\<close>

definition init :: "(string \<rightharpoonup> pyval) \<Rightarrow> state" where
  "init s0 = \<lparr>globals = Map.empty, heap = Map.empty, nalloc = 0, settings = s0,
              ncalls = 0, trace = []\<rparr>"

definition run :: "test_settings \<Rightarrow> vendor \<Rightarrow> (string \<rightharpoonup> pyval) \<Rightarrow> unit res" where
  "run ts v s0 = exec (script ts v) (init s0)"

section \<open>Summaries of the callbacks' effects and checkpoints of a run\<close>

text \<open>
  The functions of this section compute, from the vendor's outcomes alone, what the
  callbacks do during a call and the state the script is in when each call has run its
  callbacks. They are proved equal to what the script computes before any of them is
  used.
\<close>

text \<open>
  What a callback that only prints adds to the trace for one invocation, and what the
  invocations of entityTokenCallback made by one call add to the trace (\<open>et_events\<close>),
  bind EntityKey to (\<open>et_key\<close>) and raise (\<open>et_error\<close>), given whether the vendor
  swallows the callback's exceptions.
\<close>

fun shown :: "pyval \<times> pyval \<Rightarrow> event" where
  "shown (s, f) = Print (if truthy f then f else s)"

fun et_events :: "bool \<Rightarrow> (pyval \<times> pyval) list \<Rightarrow> event list" where
  "et_events c [] = []"
| "et_events c ((s, f) # rest) =
     (if truthy f then Print f # et_events c rest
      else case getitem s ''Entity'' of
             Inr x \<Rightarrow> GlobalWrite EntityKey (Val x) # Print s # et_events c rest
           | Inl e \<Rightarrow> if c then et_events c rest else [])"

fun et_key :: "bool \<Rightarrow> (pyval \<times> pyval) list \<Rightarrow> pyval option" where
  "et_key c [] = None"
| "et_key c ((s, f) # rest) =
     (if truthy f then et_key c rest
      else case getitem s ''Entity'' of
             Inr x \<Rightarrow> (case et_key c rest of None \<Rightarrow> Some x | Some y \<Rightarrow> Some y)
           | Inl e \<Rightarrow> if c then et_key c rest else None)"

fun et_error :: "bool \<Rightarrow> (pyval \<times> pyval) list \<Rightarrow> exn option" where
  "et_error c [] = None"
| "et_error c ((s, f) # rest) =
     (if truthy f then et_error c rest
      else case getitem s ''Entity'' of
             Inr x \<Rightarrow> et_error c rest
           | Inl e \<Rightarrow> if c then et_error c rest else Some e)"

text \<open>A call returns or raises in the state its callbacks have left.\<close>

fun finish :: "exn option \<Rightarrow> state \<Rightarrow> unit res" where
  "finish None st = Ok () st"
| "finish (Some e) st = Err e st"

text \<open>
  The checkpoints: \<open>S1\<close> to \<open>S5\<close> are the states in which the first to the fifth
  call have run their callbacks (\<open>S4\<close> and \<open>S5\<close> for the value \<open>k\<close> that EntityKey
  is bound to), \<open>handled e\<close> is what the exception handler adds, whether the logger
  returns or raises, and \<open>S6\<close> is the state in which the sixth call has run its
  callbacks, from the state the guarded block was left in.
\<close>

definition S1 :: "test_settings \<Rightarrow> vendor \<Rightarrow> (string \<rightharpoonup> pyval) \<Rightarrow> state" where
  "S1 ts v s0 =
     \<lparr>globals = [customId \<mapsto> Val (customId' ts), request \<mapsto> Ref 0],
      heap = [0 \<mapsto> [(''CreateAccount'', Val (PyBool True)),
                      (''CustomId'', Val (customId' ts)),
                      (''TitleId'', Val (TitleId ts)),
                      (''LoginTitlePlayerAccountEntity'', Val (PyBool True))]],
      nalloc = 1,
      settings = s0(''TitleId'' \<mapsto> TitleId ts),
      ncalls = 1,
      trace = [SettingsWrite ''TitleId'' (TitleId ts),
               GlobalWrite customId (Val (customId' ts)),
               GlobalWrite request (Ref 0),
               GlobalRead request,
               GlobalRead customId, GlobalRead request,
               SettingsRead ''TitleId'', GlobalRead request,
               GlobalRead request,
               GlobalRead request, ApiCall LoginWithCustomID (Ref 0)]
              @ map shown (invocations (v 0))\<rparr>"

definition S2 :: "test_settings \<Rightarrow> vendor \<Rightarrow> (string \<rightharpoonup> pyval) \<Rightarrow> state" where
  "S2 ts v s0 =
     (S1 ts v s0)\<lparr>
         globals := (case et_key (catches (v 1)) (invocations (v 1)) of
                       None \<Rightarrow> (globals (S1 ts v s0))(etRequest \<mapsto> Ref 1)
                     | Some x \<Rightarrow> (globals (S1 ts v s0))(etRequest \<mapsto> Ref 1, EntityKey \<mapsto> Val x)),
         heap := (heap (S1 ts v s0))(1 \<mapsto> []),
         nalloc := 2,
         ncalls := 2,
         trace := trace (S1 ts v s0) @
           [GlobalWrite etRequest (Ref 1), GlobalRead etRequest, ApiCall GetEntityToken (Ref 1)]
           @ et_events (catches (v 1)) (invocations (v 1))\<rparr>"

definition S3 :: "test_settings \<Rightarrow> vendor \<Rightarrow> (string \<rightharpoonup> pyval) \<Rightarrow> state" where
  "S3 ts v s0 =
     (S2 ts v s0)\<lparr>globals := (globals (S2 ts v s0))(eoRequest \<mapsto> Ref 2),
         heap := (heap (S2 ts v s0))(2 \<mapsto> []),
         nalloc := 3,
         ncalls := 3,
         trace := trace (S2 ts v s0) @
           [GlobalWrite eoRequest (Ref 2), GlobalRead etRequest, ApiCall GetObjects (Ref 1)]
           @ map shown (invocations (v 2))\<rparr>"

definition S4 :: "test_settings \<Rightarrow> vendor \<Rightarrow> (string \<rightharpoonup> pyval) \<Rightarrow> pyval \<Rightarrow> state" where
  "S4 ts v s0 k =
     (S3 ts v s0)\<lparr>globals := (globals (S3 ts v s0))(eoRequest2 \<mapsto> Ref 3),
         heap := (heap (S3 ts v s0))(3 \<mapsto> [(''Entity'', Val k)]),
         nalloc := 4,
         ncalls := 4,
         trace := trace (S3 ts v s0) @
           [GlobalRead EntityKey, GlobalWrite eoRequest2 (Ref 3),
            GlobalRead eoRequest2, ApiCall GetObjects (Ref 3)]
           @ map shown (invocations (v 3))\<rparr>"

definition S5 :: "test_settings \<Rightarrow> vendor \<Rightarrow> (string \<rightharpoonup> pyval) \<Rightarrow> pyval \<Rightarrow> state" where
  "S5 ts v s0 k =
     (S4 ts v s0 k)\<lparr>globals := (globals (S4 ts v s0 k))(titleDataRequest \<mapsto> Ref 4),
         heap := (heap (S4 ts v s0 k))(4 \<mapsto> []),
         nalloc := 5,
         ncalls := 5,
         trace := trace (S4 ts v s0 k) @
           [GlobalWrite titleDataRequest (Ref 4),
            GlobalRead titleDataRequest, ApiCall GetTitleData (Ref 4)]
           @ map shown (invocations (v 4))\<rparr>"

definition handled :: "exn \<Rightarrow> state \<Rightarrow> state" where
  "handled e st =
     st\<lparr>trace := trace st @
        [Print (PyStr ''Caught expected error''), SettingsCall ''GlobalExceptionLogger'' e]\<rparr>"

definition S6 :: "test_settings \<Rightarrow> vendor \<Rightarrow> state \<Rightarrow> state" where
  "S6 ts v st =
     st\<lparr>globals := (globals st)(titleDataRequest2 \<mapsto> Ref 5),
        heap := (heap st)(5 \<mapsto> []),
        nalloc := 6,
        settings := (settings st)(''DeveloperSecretKey'' \<mapsto> DeveloperSeceretKey ts),
        ncalls := 6,
        trace := trace st @
          [SettingsWrite ''DeveloperSecretKey'' (DeveloperSeceretKey ts),
           GlobalWrite titleDataRequest2 (Ref 5),
           GlobalRead titleDataRequest, ApiCall GetTitleData (Ref 4)]
          @ map shown (invocations (v 5))\<rparr>"

subsection \<open>Observations on traces\<close>

text \<open>The API calls of a trace, in order.\<close>

definition api_calls :: "event list \<Rightarrow> event list" where
  "api_calls tr = filter is_ApiCall tr"

text \<open>The assignments to \<^verbatim>\<open>PlayFabSettings\<close> and the API calls of a trace, in order.\<close>

definition config_and_calls :: "event list \<Rightarrow> event list" where
  "config_and_calls tr = filter (\<lambda>ev. is_SettingsWrite ev \<or> is_ApiCall ev) tr"

text \<open>What a trace has printed.\<close>

fun printed :: "event list \<Rightarrow> pyval list" where
  "printed [] = []"
| "printed (Print x # evs) = x # printed evs"
| "printed (ev # evs) = printed evs"

text \<open>The events that read or write a given name of the module namespace.\<close>

fun touches :: "var \<Rightarrow> event \<Rightarrow> bool" where
  "touches x (GlobalRead y) = (x = y)"
| "touches x (GlobalWrite y b) = (x = y)"
| "touches x ev = False"

text \<open>
  The steps of the script the order of which matters: assignments to
  \<^verbatim>\<open>PlayFabSettings\<close>, constructions of request dictionaries (a name is bound to a
  new dictionary object) and API calls.
\<close>

fun is_step :: "event \<Rightarrow> bool" where
  "is_step (SettingsWrite a x) = True"
| "is_step (GlobalWrite x (Ref a)) = True"
| "is_step (ApiCall f r) = True"
| "is_step ev = False"

text \<open>The events that touch \<^verbatim>\<open>PlayFabSettings\<close>.\<close>

fun on_settings :: "event \<Rightarrow> bool" where
  "on_settings (SettingsWrite a x) = True"
| "on_settings (SettingsRead a) = True"
| "on_settings (SettingsCall a e) = True"
| "on_settings ev = False"

subsection \<open>Sample inputs\<close>

text \<open>
  A settings module, initial contents of \<^verbatim>\<open>PlayFabSettings\<close> with a logger that
  returns, and six vendors: one
  that answers every call with a success payload; one that reports a failure to the
  GetEntityToken call; one that refuses the first GetTitleData call with its own
  exception, as the SDK does while no developer secret key is set; one whose first
  GetTitleData call raises another exception; one whose every call raises; one that
  refuses the second GetTitleData call with its own exception.
\<close>

definition ts0 :: test_settings where
  "ts0 = \<lparr>TitleId = PyStr ''6195'', customId' = PyStr ''abc'',
          DeveloperSeceretKey = PyStr ''key''\<rparr>"

definition settings0 :: "string \<rightharpoonup> pyval" where
  "settings0 = [''ProductionEnvironmentURL'' \<mapsto> PyStr ''.playfabapi.com'',
                ''GlobalExceptionLogger'' \<mapsto> PyCallable None]"

definition vendor_ok :: vendor where
  "vendor_ok n =
     \<lparr>invocations = [(PyDict [(''Entity'', PyStr ''E1'')], PyNone)],
      catches = False, raises = None\<rparr>"

definition vendor_denied :: vendor where
  "vendor_denied n =
     (if n = 1
      then \<lparr>invocations = [(PyNone, PyDict [(''error'', PyStr ''NotAuthenticated'')])],
            catches = False, raises = None\<rparr>
      else vendor_ok n)"

definition vendor_nokey :: vendor where
  "vendor_nokey n =
     (if n = 4
      then \<lparr>invocations = [], catches = False,
            raises = Some (PlayFabException ''Must have DeveloperSecretKey set to call this method'')\<rparr>
      else vendor_ok n)"

definition vendor_timeout :: vendor where
  "vendor_timeout n =
     (if n = 4
      then \<lparr>invocations = [], catches = False, raises = Some (OtherError ''Timeout'')\<rparr>
      else vendor_ok n)"

definition vendor_down :: vendor where
  "vendor_down n =
     \<lparr>invocations = [], catches = False, raises = Some (OtherError ''ConnectionError'')\<rparr>"

definition vendor_refused :: vendor where
  "vendor_refused n =
     (if n = 5
      then \<lparr>invocations = [], catches = False, raises = Some (PlayFabException ''Forbidden'')\<rparr>
      else vendor_ok n)"

section \<open>The callbacks and the run, evaluated\<close>

subsection \<open>What the callbacks do\<close>

lemma loginCallback_eq: "loginCallback s f st = Ok () (emit (shown (s, f)) st)"
  by (simp add: loginCallback_def print_def)

lemma invoke_all_plain:
  assumes "\<And>s f st. cb s f st = Ok () (emit (shown (s, f)) st)"
  shows "invoke_all cb c invs st = Ok () (st\<lparr>trace := trace st @ map shown invs\<rparr>)"
proof (induction invs arbitrary: st)
  case Nil
  show ?case by simp
next
  case (Cons p invs)
  obtain s f where p: "p = (s, f)" by (cases p)
  have head: "cb s f st = Ok () (emit (shown (s, f)) st)" by (rule assms)
  have "invoke_all cb c ((s, f) # invs) st = invoke_all cb c invs (emit (shown (s, f)) st)"
    using head by simp
  also have "\<dots> = Ok () (st\<lparr>trace := trace st @ map shown ((s, f) # invs)\<rparr>)"
    unfolding Cons.IH by (simp add: emit_def del: shown.simps)
  finally show ?case unfolding p .
qed

lemmas invoke_all_login = invoke_all_plain [of loginCallback, OF loginCallback_eq]

lemma entityTokenCallback_eq:
  "entityTokenCallback s f st =
     (if truthy f then Ok () (emit (Print f) st)
      else case getitem s ''Entity'' of
             Inl e \<Rightarrow> Err e st
           | Inr x \<Rightarrow> Ok () (emit (Print s) (emit (GlobalWrite EntityKey (Val x))
                        (st\<lparr>globals := (globals st)(EntityKey \<mapsto> Val x)\<rparr>))))"
  by (simp add: entityTokenCallback_def print_def assign_def split: sum.splits)

lemma invoke_all_entityToken:
  "invoke_all entityTokenCallback c invs st =
     finish (et_error c invs)
       (st\<lparr>globals := (case et_key c invs of None \<Rightarrow> globals st
                           | Some x \<Rightarrow> (globals st)(EntityKey \<mapsto> Val x)),
           trace := trace st @ et_events c invs\<rparr>)"
proof (induction invs arbitrary: st)
  case Nil
  show ?case by simp
next
  case (Cons p invs)
  obtain s f where p: "p = (s, f)" by (cases p)
  note head = entityTokenCallback_eq [of s f st]
  let ?lhs = "invoke_all entityTokenCallback c ((s, f) # invs) st"
  show ?case
  proof (cases "truthy f")
    case True
    with head have "?lhs = invoke_all entityTokenCallback c invs (emit (Print f) st)"
      by simp
    also have "\<dots> = finish (et_error c ((s, f) # invs))
       (st\<lparr>globals := (case et_key c ((s, f) # invs) of None \<Rightarrow> globals st
                           | Some x \<Rightarrow> (globals st)(EntityKey \<mapsto> Val x)),
           trace := trace st @ et_events c ((s, f) # invs)\<rparr>)"
      unfolding Cons.IH using True by (simp add: emit_def split: option.splits)
    finally show ?thesis unfolding p .
  next
    case False
    show ?thesis
    proof (cases "getitem s ''Entity''")
      case (Inl e)
      with head False have "?lhs =
          (if c then invoke_all entityTokenCallback c invs st else Err e st)"
        by simp
      also have "\<dots> = finish (et_error c ((s, f) # invs))
       (st\<lparr>globals := (case et_key c ((s, f) # invs) of None \<Rightarrow> globals st
                           | Some x \<Rightarrow> (globals st)(EntityKey \<mapsto> Val x)),
           trace := trace st @ et_events c ((s, f) # invs)\<rparr>)"
        unfolding Cons.IH using False Inl by simp
      finally show ?thesis unfolding p .
    next
      case (Inr x)
      with head False have "?lhs =
          invoke_all entityTokenCallback c invs
            (emit (Print s) (emit (GlobalWrite EntityKey (Val x))
               (st\<lparr>globals := (globals st)(EntityKey \<mapsto> Val x)\<rparr>)))"
        by simp
      also have "\<dots> = finish (et_error c ((s, f) # invs))
       (st\<lparr>globals := (case et_key c ((s, f) # invs) of None \<Rightarrow> globals st
                           | Some x \<Rightarrow> (globals st)(EntityKey \<mapsto> Val x)),
           trace := trace st @ et_events c ((s, f) # invs)\<rparr>)"
        unfolding Cons.IH using False Inr by (simp add: emit_def split: option.splits)
      finally show ?thesis unfolding p .
    qed
  qed
qed


lemma entityObjectCallback_eq: "entityObjectCallback s f st = Ok () (emit (shown (s, f)) st)"
  by (simp add: entityObjectCallback_def print_def)

lemma titleDataReqCallback_eq: "titleDataReqCallback s f st = Ok () (emit (shown (s, f)) st)"
  by (simp add: titleDataReqCallback_def print_def)

lemmas invoke_all_entityObject = invoke_all_plain [of entityObjectCallback, OF entityObjectCallback_eq]
lemmas invoke_all_titleDataReq = invoke_all_plain [of titleDataReqCallback, OF titleDataReqCallback_eq]

subsection \<open>The script, leg by leg\<close>

text \<open>
  Each leg is the statements up to and including one API call; it is evaluated from the
  checkpoint before it and ends at the next one.
\<close>

lemma case_finish:
  "(case finish eo st of Ok u s \<Rightarrow> A u s | Err e s \<Rightarrow> B e s) =
   (case eo of None \<Rightarrow> A () st | Some e \<Rightarrow> B e st)"
  by (cases eo) simp_all

lemmas step_defs = settings_assign_def const_def assign_def emit_def dict_display_def
  store_subscr_def name_def settings_attr_def call_api_def print_def
  try_except_PlayFabException_def global_exception_logger_def Let_def

lemmas invoke_simps = invoke_all_login invoke_all_entityToken invoke_all_entityObject
  invoke_all_titleDataReq case_finish


lemma exec_append:
  "exec (xs @ ys) st = (case exec xs st of Ok u st' \<Rightarrow> exec ys st' | Err e st' \<Rightarrow> Err e st')"
  by (induction xs arbitrary: st) (auto split: res.splits)

lemma leg1:
  "exec [settings_assign ''TitleId'' (const (TitleId ts)),
     assign customId (const (customId' ts)),
     assign request (dict_display []),
     store_subscr request ''CreateAccount'' (const (PyBool True)),
     store_subscr request ''CustomId'' (name customId),
     store_subscr request ''TitleId'' (settings_attr ''TitleId''),
     store_subscr request ''LoginTitlePlayerAccountEntity'' (const (PyBool True)),
     call_api v LoginWithCustomID (name request) loginCallback] (init s0)
   = finish (raises (v 0)) (S1 ts v s0)"
  by (cases "raises (v 0)") (simp_all add: init_def step_defs invoke_simps S1_def)

lemma leg2:
  "exec [assign etRequest (dict_display []),
     call_api v GetEntityToken (name etRequest) entityTokenCallback] (S1 ts v s0)
   = finish (case et_error (catches (v 1)) (invocations (v 1)) of
               Some e \<Rightarrow> Some e | None \<Rightarrow> raises (v 1)) (S2 ts v s0)"
  by (cases "et_error (catches (v 1)) (invocations (v 1))"; cases "raises (v 1)";
      cases "et_key (catches (v 1)) (invocations (v 1))")
     (simp_all add: step_defs invoke_simps S1_def S2_def)

lemma leg3:
  "exec [assign eoRequest (dict_display []),
     call_api v GetObjects (name etRequest) entityObjectCallback] (S2 ts v s0)
   = finish (raises (v 2)) (S3 ts v s0)"
  by (cases "raises (v 2)"; cases "et_key (catches (v 1)) (invocations (v 1))")
     (simp_all add: step_defs invoke_simps S1_def S2_def S3_def)


lemma S3_EntityKey:
  "globals (S3 ts v s0) EntityKey = map_option Val (et_key (catches (v 1)) (invocations (v 1)))"
  by (simp add: S1_def S2_def S3_def split: option.splits)

lemma leg4_unbound:
  assumes "et_key (catches (v 1)) (invocations (v 1)) = None"
  shows "exec (assign eoRequest2 (dict_display [(''Entity'', name EntityKey)]) # ss) (S3 ts v s0)
   = Err (NameError EntityKey) (emit (GlobalRead EntityKey) (S3 ts v s0))"
  using S3_EntityKey [of ts v s0] assms by (simp add: step_defs)

lemma leg4:
  assumes "et_key (catches (v 1)) (invocations (v 1)) = Some k"
  shows "exec [assign eoRequest2 (dict_display [(''Entity'', name EntityKey)]),
     call_api v GetObjects (name eoRequest2) entityObjectCallback] (S3 ts v s0)
   = finish (raises (v 3)) (S4 ts v s0 k)"
  using assms
  by (cases "raises (v 3)")
     (simp_all add: step_defs invoke_simps S1_def S2_def S3_def S4_def)

lemma logger_outcome_upd:
  "a \<noteq> ''GlobalExceptionLogger'' \<Longrightarrow> logger_outcome (s(a \<mapsto> x)) = logger_outcome s"
  by (simp add: logger_outcome_def)

lemma leg5:
  "try_except_PlayFabException
       [assign titleDataRequest (dict_display []),
        call_api v GetTitleData (name titleDataRequest) titleDataReqCallback]
       (\<lambda>e. [print (PyStr ''Caught expected error''),
             global_exception_logger e]) (S4 ts v s0 k)
   = (case raises (v 4) of
        None \<Rightarrow> Ok () (S5 ts v s0 k)
      | Some e \<Rightarrow> if is_PlayFabException e
                  then finish (logger_outcome s0) (handled e (S5 ts v s0 k))
                  else Err e (S5 ts v s0 k))"
  by (cases "raises (v 4)"; cases "et_key (catches (v 1)) (invocations (v 1))";
      cases "logger_outcome s0")
     (simp_all add: step_defs invoke_simps S1_def S2_def S3_def S4_def S5_def handled_def
        logger_outcome_upd)

lemma leg6:
  assumes "globals st titleDataRequest = Some (Ref 4)" "nalloc st = 5" "ncalls st = 5"
  shows "exec [settings_assign ''DeveloperSecretKey'' (const (DeveloperSeceretKey ts)),
     assign titleDataRequest2 (dict_display []),
     call_api v GetTitleData (name titleDataRequest) titleDataReqCallback] st
   = finish (raises (v 5)) (S6 ts v st)"
  using assms
  by (cases "raises (v 5)") (simp_all add: step_defs invoke_simps S6_def)

lemma S5_facts:
  "globals (S5 ts v s0 k) titleDataRequest = Some (Ref 4)"
  "nalloc (S5 ts v s0 k) = 5" "ncalls (S5 ts v s0 k) = 5"
  by (simp_all add: S5_def)

lemma handled_facts:
  "globals (handled e st) = globals st" "nalloc (handled e st) = nalloc st"
  "ncalls (handled e st) = ncalls st"
  by (simp_all add: handled_def)

subsection \<open>Where a run ends\<close>

lemma script_legs:
  "script ts v =
    [settings_assign ''TitleId'' (const (TitleId ts)),
     assign customId (const (customId' ts)),
     assign request (dict_display []),
     store_subscr request ''CreateAccount'' (const (PyBool True)),
     store_subscr request ''CustomId'' (name customId),
     store_subscr request ''TitleId'' (settings_attr ''TitleId''),
     store_subscr request ''LoginTitlePlayerAccountEntity'' (const (PyBool True)),
     call_api v LoginWithCustomID (name request) loginCallback] @
    [assign etRequest (dict_display []),
     call_api v GetEntityToken (name etRequest) entityTokenCallback] @
    [assign eoRequest (dict_display []),
     call_api v GetObjects (name etRequest) entityObjectCallback] @
    [assign eoRequest2 (dict_display [(''Entity'', name EntityKey)]),
     call_api v GetObjects (name eoRequest2) entityObjectCallback] @
    [try_except_PlayFabException
       [assign titleDataRequest (dict_display []),
        call_api v GetTitleData (name titleDataRequest) titleDataReqCallback]
       (\<lambda>e. [print (PyStr ''Caught expected error''),
             global_exception_logger e])] @
    [settings_assign ''DeveloperSecretKey'' (const (DeveloperSeceretKey ts)),
     assign titleDataRequest2 (dict_display []),
     call_api v GetTitleData (name titleDataRequest) titleDataReqCallback]"
  by (simp add: script_def)

lemma exec_single: "exec [s] st = s st"
  by (cases "s st") simp_all


lemma leg4_all:
  "exec [assign eoRequest2 (dict_display [(''Entity'', name EntityKey)]),
     call_api v GetObjects (name eoRequest2) entityObjectCallback] (S3 ts v s0)
   = (case et_key (catches (v 1)) (invocations (v 1)) of
        None \<Rightarrow> Err (NameError EntityKey) (emit (GlobalRead EntityKey) (S3 ts v s0))
      | Some k \<Rightarrow> finish (raises (v 3)) (S4 ts v s0 k))"
  by (cases "et_key (catches (v 1)) (invocations (v 1))") (simp_all del: exec.simps add: leg4_unbound leg4)

lemma run_eq:
  "run ts v s0 =
    (case raises (v 0) of
       Some e \<Rightarrow> Err e (S1 ts v s0)
     | None \<Rightarrow>
    (case (case et_error (catches (v 1)) (invocations (v 1)) of
             Some e \<Rightarrow> Some e | None \<Rightarrow> raises (v 1)) of
       Some e \<Rightarrow> Err e (S2 ts v s0)
     | None \<Rightarrow>
    (case raises (v 2) of
       Some e \<Rightarrow> Err e (S3 ts v s0)
     | None \<Rightarrow>
    (case et_key (catches (v 1)) (invocations (v 1)) of
       None \<Rightarrow> Err (NameError EntityKey) (emit (GlobalRead EntityKey) (S3 ts v s0))
     | Some k \<Rightarrow>
    (case raises (v 3) of
       Some e \<Rightarrow> Err e (S4 ts v s0 k)
     | None \<Rightarrow>
    (case raises (v 4) of
       None \<Rightarrow> finish (raises (v 5)) (S6 ts v (S5 ts v s0 k))
     | Some e \<Rightarrow>
         if is_PlayFabException e
         then (case logger_outcome s0 of
                 None \<Rightarrow> finish (raises (v 5)) (S6 ts v (handled e (S5 ts v s0 k)))
               | Some ex \<Rightarrow> Err ex (handled e (S5 ts v s0 k)))
         else Err e (S5 ts v s0 k)))))))"
  unfolding run_def script_legs exec_append
  by (simp del: exec.simps
        add: leg1 leg2 leg3 leg4_all leg5 leg6 exec_single case_finish S5_facts handled_facts
        split: option.splits)


lemma state_of_finish [simp]: "state_of (finish eo st) = st"
  by (cases eo) simp_all

lemma run_cases [case_names login token objects unbound objects2 title finished caught logger]:
  obtains
    (login) e where
      "raises (v 0) = Some e" "run ts v s0 = Err e (S1 ts v s0)"
  | (token) e where
      "raises (v 0) = None"
      "et_error (catches (v 1)) (invocations (v 1)) = Some e \<or>
       et_error (catches (v 1)) (invocations (v 1)) = None \<and> raises (v 1) = Some e"
      "run ts v s0 = Err e (S2 ts v s0)"
  | (objects) e where
      "raises (v 0) = None" "et_error (catches (v 1)) (invocations (v 1)) = None"
      "raises (v 1) = None" "raises (v 2) = Some e"
      "run ts v s0 = Err e (S3 ts v s0)"
  | (unbound)
      "raises (v 0) = None" "et_error (catches (v 1)) (invocations (v 1)) = None"
      "raises (v 1) = None" "raises (v 2) = None"
      "et_key (catches (v 1)) (invocations (v 1)) = None"
      "run ts v s0 = Err (NameError EntityKey) (emit (GlobalRead EntityKey) (S3 ts v s0))"
  | (objects2) k e where
      "raises (v 0) = None" "et_error (catches (v 1)) (invocations (v 1)) = None"
      "raises (v 1) = None" "raises (v 2) = None"
      "et_key (catches (v 1)) (invocations (v 1)) = Some k"
      "raises (v 3) = Some e"
      "run ts v s0 = Err e (S4 ts v s0 k)"
  | (title) k e where
      "raises (v 0) = None" "et_error (catches (v 1)) (invocations (v 1)) = None"
      "raises (v 1) = None" "raises (v 2) = None"
      "et_key (catches (v 1)) (invocations (v 1)) = Some k"
      "raises (v 3) = None" "raises (v 4) = Some e" "\<not> is_PlayFabException e"
      "run ts v s0 = Err e (S5 ts v s0 k)"
  | (finished) k where
      "raises (v 0) = None" "et_error (catches (v 1)) (invocations (v 1)) = None"
      "raises (v 1) = None" "raises (v 2) = None"
      "et_key (catches (v 1)) (invocations (v 1)) = Some k"
      "raises (v 3) = None" "raises (v 4) = None"
      "run ts v s0 = finish (raises (v 5)) (S6 ts v (S5 ts v s0 k))"
  | (caught) k e where
      "raises (v 0) = None" "et_error (catches (v 1)) (invocations (v 1)) = None"
      "raises (v 1) = None" "raises (v 2) = None"
      "et_key (catches (v 1)) (invocations (v 1)) = Some k"
      "raises (v 3) = None" "raises (v 4) = Some e" "is_PlayFabException e"
      "logger_outcome s0 = None"
      "run ts v s0 = finish (raises (v 5)) (S6 ts v (handled e (S5 ts v s0 k)))"
  | (logger) k e ex where
      "raises (v 0) = None" "et_error (catches (v 1)) (invocations (v 1)) = None"
      "raises (v 1) = None" "raises (v 2) = None"
      "et_key (catches (v 1)) (invocations (v 1)) = Some k"
      "raises (v 3) = None" "raises (v 4) = Some e" "is_PlayFabException e"
      "logger_outcome s0 = Some ex"
      "run ts v s0 = Err ex (handled e (S5 ts v s0 k))"
  using run_eq [of ts v s0]
  by (auto split: option.splits if_splits)


subsection \<open>Facts about the checkpoints\<close>

lemma filter_shown: "(\<And>x. \<not> P (Print x)) \<Longrightarrow> filter P (map shown invs) = []"
  by (induction invs) auto

lemma filter_et_events:
  "(\<And>x. \<not> P (Print x)) \<Longrightarrow> (\<And>x. \<not> P (GlobalWrite EntityKey (Val x))) \<Longrightarrow>
   filter P (et_events c invs) = []"
  by (induction c invs rule: et_events.induct) (auto split: sum.splits)

lemmas S_defs = S1_def S2_def S3_def S4_def S5_def S6_def handled_def emit_def

lemma api_calls_run:
  "api_calls (trace (state_of (run ts v s0))) =
     take (ncalls (state_of (run ts v s0)))
       [ApiCall LoginWithCustomID (Ref 0), ApiCall GetEntityToken (Ref 1),
        ApiCall GetObjects (Ref 1), ApiCall GetObjects (Ref 3),
        ApiCall GetTitleData (Ref 4), ApiCall GetTitleData (Ref 4)]"
  by (cases rule: run_cases [of v ts s0])
     (simp_all add: S_defs api_calls_def filter_shown filter_et_events)


lemma printed_append: "printed (xs @ ys) = printed xs @ printed ys"
  by (induction xs rule: printed.induct) simp_all


lemma ncalls_S [simp]:
  "ncalls (S1 ts v s0) = 1" "ncalls (S2 ts v s0) = 2" "ncalls (S3 ts v s0) = 3"
  "ncalls (S4 ts v s0 k) = 4" "ncalls (S5 ts v s0 k) = 5" "ncalls (S6 ts v st) = 6"
  "ncalls (handled e st) = ncalls st" "ncalls (emit ev st) = ncalls st"
  by (simp_all add: S_defs)

lemma requests_S1:
  "globals (S1 ts v s0) etRequest = None" "globals (S1 ts v s0) eoRequest = None"
  "globals (S1 ts v s0) eoRequest2 = None" "globals (S1 ts v s0) titleDataRequest = None"
  "globals (S1 ts v s0) titleDataRequest2 = None" "globals (S1 ts v s0) EntityKey = None"
  "globals (S1 ts v s0) request = Some (Ref 0)"
  by (simp_all add: S1_def)

lemma requests_S2:
  "globals (S2 ts v s0) etRequest = Some (Ref 1)" "globals (S2 ts v s0) eoRequest = None"
  "globals (S2 ts v s0) eoRequest2 = None" "globals (S2 ts v s0) titleDataRequest = None"
  "globals (S2 ts v s0) titleDataRequest2 = None"
  "globals (S2 ts v s0) EntityKey = map_option Val (et_key (catches (v 1)) (invocations (v 1)))"
  "globals (S2 ts v s0) request = Some (Ref 0)"
  by (simp_all add: S2_def requests_S1 split: option.splits)

lemma requests_S3:
  "globals (S3 ts v s0) etRequest = Some (Ref 1)" "globals (S3 ts v s0) eoRequest = Some (Ref 2)"
  "globals (S3 ts v s0) eoRequest2 = None" "globals (S3 ts v s0) titleDataRequest = None"
  "globals (S3 ts v s0) titleDataRequest2 = None"
  "globals (S3 ts v s0) EntityKey = map_option Val (et_key (catches (v 1)) (invocations (v 1)))"
  "globals (S3 ts v s0) request = Some (Ref 0)"
  by (simp_all add: S3_def requests_S2)

lemma requests_S4:
  "globals (S4 ts v s0 k) etRequest = Some (Ref 1)"
  "globals (S4 ts v s0 k) eoRequest = Some (Ref 2)"
  "globals (S4 ts v s0 k) eoRequest2 = Some (Ref 3)"
  "globals (S4 ts v s0 k) titleDataRequest = None"
  "globals (S4 ts v s0 k) titleDataRequest2 = None"
  "globals (S4 ts v s0 k) EntityKey = map_option Val (et_key (catches (v 1)) (invocations (v 1)))"
  "globals (S4 ts v s0 k) request = Some (Ref 0)"
  by (simp_all add: S4_def requests_S3)

lemma requests_S5:
  "globals (S5 ts v s0 k) etRequest = Some (Ref 1)"
  "globals (S5 ts v s0 k) eoRequest = Some (Ref 2)"
  "globals (S5 ts v s0 k) eoRequest2 = Some (Ref 3)"
  "globals (S5 ts v s0 k) titleDataRequest = Some (Ref 4)"
  "globals (S5 ts v s0 k) titleDataRequest2 = None"
  "globals (S5 ts v s0 k) EntityKey = map_option Val (et_key (catches (v 1)) (invocations (v 1)))"
  "globals (S5 ts v s0 k) request = Some (Ref 0)"
  by (simp_all add: S5_def requests_S4)

lemma requests_S6:
  "globals (S6 ts v st) titleDataRequest2 = Some (Ref 5)"
  "x \<noteq> titleDataRequest2 \<Longrightarrow> globals (S6 ts v st) x = globals st x"
  "globals (handled e st) = globals st"
  "globals (emit ev st) = globals st"
  by (simp_all add: S6_def handled_def emit_def)

lemmas requests_S = requests_S1 requests_S2 requests_S3 requests_S4 requests_S5 requests_S6

lemma requests_run:
  "globals (state_of (run ts v s0)) eoRequest \<in> {None, Some (Ref 2)}"
  "globals (state_of (run ts v s0)) titleDataRequest2 \<in> {None, Some (Ref 5)}"
  "3 \<le> ncalls (state_of (run ts v s0)) \<Longrightarrow>
     globals (state_of (run ts v s0)) etRequest = Some (Ref 1) \<and>
     globals (state_of (run ts v s0)) eoRequest = Some (Ref 2)"
  "6 \<le> ncalls (state_of (run ts v s0)) \<Longrightarrow>
     globals (state_of (run ts v s0)) titleDataRequest = Some (Ref 4) \<and>
     globals (state_of (run ts v s0)) titleDataRequest2 = Some (Ref 5)"
  by (cases rule: run_cases [of v ts s0]; simp add: requests_S)+


lemma not_called: "ApiCall f r \<notin> set (api_calls tr) \<Longrightarrow> ApiCall f r \<notin> set tr"
  by (simp add: api_calls_def)

lemma heap_S:
  "heap (S4 ts v s0 k) 3 = Some [(''Entity'', Val k)]"
  "heap (S5 ts v s0 k) 3 = Some [(''Entity'', Val k)]"
  "heap (S6 ts v st) 3 = heap st 3"
  "heap (handled e st) = heap st"
  by (simp_all add: S4_def S5_def S6_def handled_def)

lemma et_key_Some:
  "et_key c invs = Some y \<Longrightarrow>
     \<exists>s f. (s, f) \<in> set invs \<and> \<not> truthy f \<and> getitem s ''Entity'' = Inr y"
  by (induction c invs rule: et_key.induct)
     (auto split: if_splits sum.splits option.splits)

lemma run_vendor_ok:
  "run ts vendor_ok s0 = Ok () (S6 ts vendor_ok (S5 ts vendor_ok s0 (PyStr ''E1'')))"
  by (simp add: run_eq vendor_ok_def)

subsection \<open>Reading EntityKey\<close>

lemma not_in_shown: "\<not> is_Print ev \<Longrightarrow> ev \<notin> shown ` set invs"
  by (induction invs) auto

lemma not_in_et_events:
  "\<not> is_Print ev \<Longrightarrow> (\<And>x. ev \<noteq> GlobalWrite EntityKey (Val x)) \<Longrightarrow> ev \<notin> set (et_events c invs)"
  by (induction c invs rule: et_events.induct) (auto split: sum.splits)

lemma no_read_before:
  "GlobalRead EntityKey \<notin> set (trace (S1 ts v s0))"
  "GlobalRead EntityKey \<notin> set (trace (S2 ts v s0))"
  "GlobalRead EntityKey \<notin> set (trace (S3 ts v s0))"
  by (simp_all add: S1_def S2_def S3_def not_in_shown not_in_et_events)

lemma reached_four:
  assumes "4 \<le> ncalls (state_of (run ts v s0))"
  shows "\<exists>k. et_key (catches (v 1)) (invocations (v 1)) = Some k \<and>
             globals (state_of (run ts v s0)) eoRequest2 = Some (Ref 3) \<and>
             heap (state_of (run ts v s0)) 3 = Some [(''Entity'', Val k)] \<and>
             globals (state_of (run ts v s0)) EntityKey = Some (Val k)"
  using assms
  by (cases rule: run_cases [of v ts s0]) (simp_all add: requests_S heap_S)

lemma bound_eoRequest2:
  assumes "globals (state_of (run ts v s0)) eoRequest2 \<noteq> None"
  shows "\<exists>k. et_key (catches (v 1)) (invocations (v 1)) = Some k"
  using assms
  by (cases rule: run_cases [of v ts s0]) (simp_all add: requests_S)

lemma read_unbound:
  assumes "GlobalRead EntityKey \<in> set (trace (state_of (run ts v s0)))"
      and "globals (state_of (run ts v s0)) EntityKey = None"
  shows "run ts v s0 = Err (NameError EntityKey) (emit (GlobalRead EntityKey) (S3 ts v s0))"
  using assms
  by (cases rule: run_cases [of v ts s0]) (simp_all add: requests_S no_read_before)

lemma run_vendor_denied:
  "run ts vendor_denied s0 =
     Err (NameError EntityKey) (emit (GlobalRead EntityKey) (S3 ts vendor_denied s0))"
  by (simp add: run_eq vendor_denied_def vendor_ok_def)

subsection \<open>Accesses to the settings\<close>

lemma settings_events_run:
  "set (filter on_settings (trace (state_of (run ts v s0)))) \<subseteq>
     {SettingsWrite ''TitleId'' (TitleId ts), SettingsRead ''TitleId'',
      SettingsWrite ''DeveloperSecretKey'' (DeveloperSeceretKey ts)} \<union>
     range (SettingsCall ''GlobalExceptionLogger'')"
  by (cases rule: run_cases [of v ts s0])
     (simp_all add: S_defs filter_shown filter_et_events)

lemma settings_S:
  "settings (S1 ts v s0) = s0(''TitleId'' \<mapsto> TitleId ts)"
  "settings (S2 ts v s0) = s0(''TitleId'' \<mapsto> TitleId ts)"
  "settings (S3 ts v s0) = s0(''TitleId'' \<mapsto> TitleId ts)"
  "settings (S4 ts v s0 k) = s0(''TitleId'' \<mapsto> TitleId ts)"
  "settings (S5 ts v s0 k) = s0(''TitleId'' \<mapsto> TitleId ts)"
  "settings (S6 ts v st) = (settings st)(''DeveloperSecretKey'' \<mapsto> DeveloperSeceretKey ts)"
  "settings (handled e st) = settings st"
  "settings (emit ev st) = settings st"
  by (simp_all add: S_defs)

lemma settings_frame_run:
  "a \<noteq> ''TitleId'' \<Longrightarrow> a \<noteq> ''DeveloperSecretKey'' \<Longrightarrow>
   settings (state_of (run ts v s0)) a = s0 a"
  by (cases rule: run_cases [of v ts s0]) (simp_all add: settings_S)

lemma title_id_written: "SettingsWrite ''TitleId'' (TitleId ts) \<in> set (trace (state_of (run ts v s0)))"
  by (cases rule: run_cases [of v ts s0]) (simp_all add: S_defs)

lemma run_vendor_nokey:
  "run ts vendor_nokey settings0 =
     Ok () (S6 ts vendor_nokey (handled
       (PlayFabException ''Must have DeveloperSecretKey set to call this method'')
       (S5 ts vendor_nokey settings0 (PyStr ''E1''))))"
  by (simp add: run_eq vendor_nokey_def vendor_ok_def logger_outcome_def settings0_def)

subsection \<open>Accesses to EntityKey\<close>

lemma writes_only:
  "ev \<in> set (filter (touches EntityKey) (et_events c invs)) \<Longrightarrow>
     \<exists>b. ev = GlobalWrite EntityKey b"
  by (induction c invs rule: et_events.induct) (auto split: sum.splits if_splits)

lemma accesses_run:
  "(filter (touches EntityKey) (trace (state_of (run ts v s0))) = [] \<or>
    filter (touches EntityKey) (trace (state_of (run ts v s0))) =
      filter (touches EntityKey) (et_events (catches (v 1)) (invocations (v 1))) \<or>
    filter (touches EntityKey) (trace (state_of (run ts v s0))) =
      filter (touches EntityKey) (et_events (catches (v 1)) (invocations (v 1))) @
      [GlobalRead EntityKey]) \<and>
   (4 \<le> ncalls (state_of (run ts v s0)) \<longrightarrow>
    filter (touches EntityKey) (trace (state_of (run ts v s0))) =
      filter (touches EntityKey) (et_events (catches (v 1)) (invocations (v 1))) @
      [GlobalRead EntityKey])"
  by (cases rule: run_cases [of v ts s0])
     (simp_all add: S_defs filter_shown)

subsection \<open>Exceptions raised by the calls\<close>

lemma logger_calls_run:
  "filter is_SettingsCall (trace (state_of (run ts v s0))) =
     (case raises (v 4) of
        None \<Rightarrow> []
      | Some e \<Rightarrow>
          if is_PlayFabException e \<and> 5 \<le> ncalls (state_of (run ts v s0))
          then [SettingsCall ''GlobalExceptionLogger'' e] else [])"
  by (cases rule: run_cases [of v ts s0])
     (simp_all add: S_defs filter_shown filter_et_events split: option.splits)

lemma logger_called:
  "SettingsCall a e \<in> set tr \<Longrightarrow> SettingsCall a e \<in> set (filter is_SettingsCall tr)"
  by simp

lemma handled_continues:
  assumes "5 \<le> ncalls (state_of (run ts v s0))" and "raises (v 4) = Some e"
    and "is_PlayFabException e" and "logger_outcome s0 = None"
  shows "ncalls (state_of (run ts v s0)) = 6"
  using assms by (cases rule: run_cases [of v ts s0]) simp_all

lemma logger_stops:
  assumes "5 \<le> ncalls (state_of (run ts v s0))" and "raises (v 4) = Some e"
    and "is_PlayFabException e" and "logger_outcome s0 = Some ex"
  shows "run ts v s0 = Err ex (state_of (run ts v s0)) \<and> ncalls (state_of (run ts v s0)) = 5"
  using assms by (cases rule: run_cases [of v ts s0]) simp_all

lemma unhandled_stops:
  assumes "5 \<le> ncalls (state_of (run ts v s0))" and "raises (v 4) = Some e"
    and "\<not> is_PlayFabException e"
  shows "run ts v s0 = Err e (state_of (run ts v s0)) \<and> ncalls (state_of (run ts v s0)) = 5"
  using assms by (cases rule: run_cases [of v ts s0]) simp_all

lemma other_calls_stop:
  assumes "k \<in> {0, 1, 2, 3, 5}" and "k < ncalls (state_of (run ts v s0))"
    and "raises (v k) = Some e"
  shows "ncalls (state_of (run ts v s0)) = Suc k \<and>
         (\<exists>e'. run ts v s0 = Err e' (state_of (run ts v s0))) \<and>
         (k \<noteq> 1 \<longrightarrow> run ts v s0 = Err e (state_of (run ts v s0)))"
  using assms by (cases rule: run_cases [of v ts s0]) auto

lemma run_vendor_timeout:
  "run ts vendor_timeout s0 = Err (OtherError ''Timeout'') (S5 ts vendor_timeout s0 (PyStr ''E1''))"
  by (simp add: run_eq vendor_timeout_def vendor_ok_def)

lemma run_vendor_down:
  "run ts vendor_down s0 = Err (OtherError ''ConnectionError'') (S1 ts vendor_down s0)"
  by (simp add: run_eq vendor_down_def)

subsection \<open>Which calls a run makes\<close>

lemma single_capture:
  assumes "invocations (v 1) = [(s, f)]" "\<not> truthy f" "getitem s ''Entity'' = Inr x"
  shows "et_error (catches (v 1)) (invocations (v 1)) = None"
    "et_key (catches (v 1)) (invocations (v 1)) = Some x"
  using assms by simp_all

lemma calls_made:
  "0 < ncalls (state_of (run ts v s0))"
  "raises (v 0) = None \<Longrightarrow> 1 < ncalls (state_of (run ts v s0))"
  "raises (v 0) = None \<Longrightarrow> et_error (catches (v 1)) (invocations (v 1)) = None \<Longrightarrow>
   raises (v 1) = None \<Longrightarrow> 2 < ncalls (state_of (run ts v s0))"
  "raises (v 0) = None \<Longrightarrow> et_error (catches (v 1)) (invocations (v 1)) = None \<Longrightarrow>
   raises (v 1) = None \<Longrightarrow> raises (v 2) = None \<Longrightarrow>
   et_key (catches (v 1)) (invocations (v 1)) = Some x \<Longrightarrow>
   3 < ncalls (state_of (run ts v s0))"
  "raises (v 0) = None \<Longrightarrow> et_error (catches (v 1)) (invocations (v 1)) = None \<Longrightarrow>
   raises (v 1) = None \<Longrightarrow> raises (v 2) = None \<Longrightarrow>
   et_key (catches (v 1)) (invocations (v 1)) = Some x \<Longrightarrow> raises (v 3) = None \<Longrightarrow>
   4 < ncalls (state_of (run ts v s0))"
  "raises (v 0) = None \<Longrightarrow> et_error (catches (v 1)) (invocations (v 1)) = None \<Longrightarrow>
   raises (v 1) = None \<Longrightarrow> raises (v 2) = None \<Longrightarrow>
   et_key (catches (v 1)) (invocations (v 1)) = Some x \<Longrightarrow> raises (v 3) = None \<Longrightarrow>
   raises (v 4) = None \<Longrightarrow> 5 < ncalls (state_of (run ts v s0))"
  by (cases rule: run_cases [of v ts s0]; simp)+

lemma call_made:
  assumes k: "k \<le> 5" and r: "\<And>j. j < k \<Longrightarrow> raises (v j) = None"
    and h: "2 \<le> k \<Longrightarrow> invocations (v 1) = [(s, f)] \<and> \<not> truthy f \<and> getitem s ''Entity'' = Inr x"
  shows "k < ncalls (state_of (run ts v s0))"
proof -
  from k consider "k = 0" | "k = 1" | "k = 2" | "k = 3" | "k = 4" | "k = 5" by arith
  then show ?thesis
  proof cases
    case 1
    then show ?thesis using calls_made(1) [of ts v s0] by simp
  next
    case 2
    with r [of 0] show ?thesis using calls_made(2) [of v ts s0] by simp
  next
    case 3
    with h have c: "et_error (catches (v 1)) (invocations (v 1)) = None"
      by (intro single_capture(1) [of v s f x]) simp_all
    from 3 r [of 0] r [of 1] have "raises (v 0) = None" "raises (v 1) = None" by simp_all
    with c 3 show ?thesis using calls_made(3) [of v ts s0] by simp
  next
    case 4
    with h have c: "et_error (catches (v 1)) (invocations (v 1)) = None"
      "et_key (catches (v 1)) (invocations (v 1)) = Some x"
      by (simp_all add: single_capture [of v s f x])
    from 4 r [of 0] r [of 1] r [of 2]
    have "raises (v 0) = None" "raises (v 1) = None" "raises (v 2) = None" by simp_all
    with c 4 show ?thesis using calls_made(4) [of v x ts s0] by simp
  next
    case 5
    with h have c: "et_error (catches (v 1)) (invocations (v 1)) = None"
      "et_key (catches (v 1)) (invocations (v 1)) = Some x"
      by (simp_all add: single_capture [of v s f x])
    from 5 r [of 0] r [of 1] r [of 2] r [of 3]
    have "raises (v 0) = None" "raises (v 1) = None" "raises (v 2) = None" "raises (v 3) = None"
      by simp_all
    with c 5 show ?thesis using calls_made(5) [of v x ts s0] by simp
  next
    case 6
    with h have c: "et_error (catches (v 1)) (invocations (v 1)) = None"
      "et_key (catches (v 1)) (invocations (v 1)) = Some x"
      by (simp_all add: single_capture [of v s f x])
    from 6 r [of 0] r [of 1] r [of 2] r [of 3] r [of 4]
    have "raises (v 0) = None" "raises (v 1) = None" "raises (v 2) = None" "raises (v 3) = None"
      "raises (v 4) = None"
      by simp_all
    with c 6 show ?thesis using calls_made(6) [of v x ts s0] by simp
  qed
qed

lemma fourth_call:
  assumes "raises (v 0) = None" "raises (v 1) = None" "raises (v 2) = None"
    and "invocations (v 1) = [(s, f)]" "\<not> truthy f" "getitem s ''Entity'' = Inr x"
  shows "4 \<le> ncalls (state_of (run ts v s0)) \<and>
         api_calls (trace (state_of (run ts v s0))) ! 3 = ApiCall GetObjects (Ref 3) \<and>
         globals (state_of (run ts v s0)) eoRequest2 = Some (Ref 3) \<and>
         heap (state_of (run ts v s0)) 3 = Some [(''Entity'', Val x)] \<and>
         globals (state_of (run ts v s0)) EntityKey = Some (Val x)"
proof -
  let ?st = "state_of (run ts v s0)"
  from assms have c: "et_error (catches (v 1)) (invocations (v 1)) = None"
    "et_key (catches (v 1)) (invocations (v 1)) = Some x"
    by simp_all
  with assms(1-3) have "3 < ncalls ?st" by (intro calls_made(4) [of v x ts s0])
  then have four: "4 \<le> ncalls ?st" by simp
  from reached_four [OF four] c(2)
  have "globals ?st eoRequest2 = Some (Ref 3)" "heap ?st 3 = Some [(''Entity'', Val x)]"
    "globals ?st EntityKey = Some (Val x)"
    by auto
  moreover from four have "api_calls (trace ?st) ! 3 = ApiCall GetObjects (Ref 3)"
    unfolding api_calls_run by simp
  ultimately show ?thesis using four by blast
qed

lemma fifth_call:
  assumes "5 \<le> ncalls (state_of (run ts v s0))"
  shows "api_calls (trace (state_of (run ts v s0))) ! 4 = ApiCall GetTitleData (Ref 4)"
  using assms unfolding api_calls_run by simp

section \<open>Properties of the callbacks\<close>

text \<open>
  Claim C5. The three callbacks that capture nothing (loginCallback,
  entityObjectCallback, titleDataReqCallback) are the same function: for every pair
  (success, fail) each of them prints fail when it is truthy and success otherwise, and
  the new state differs from the old one in that one printed line only.
\<close>

theorem callbacks_same:
  "loginCallback = entityObjectCallback \<and> entityObjectCallback = titleDataReqCallback \<and>
   loginCallback success fail st =
     Ok () (st\<lparr>trace := trace st @ [Print (if truthy fail then fail else success)]\<rparr>)"
  by (intro conjI ext)
     (simp_all add: loginCallback_def entityObjectCallback_def titleDataReqCallback_def
        print_def emit_def)

text \<open>
  Claim C1 as stated says that every invocation of each of the four callbacks prints
  exactly one payload. It fails for entityTokenCallback: with a falsy fail and a success
  payload that is an empty dictionary, the subscription raises before the print and
  nothing is printed.
\<close>

theorem prints_one_counterexample:
  "printed (trace (state_of (entityTokenCallback (PyDict []) PyNone (init Map.empty)))) \<noteq>
   printed (trace (init Map.empty)) @ [if truthy PyNone then PyNone else PyDict []]"
  by (simp add: entityTokenCallback_eq init_def)

text \<open>
  Claim C1, amended. Every invocation of loginCallback, entityObjectCallback and
  titleDataReqCallback prints exactly one payload: fail when it is truthy, success
  otherwise. The same holds for entityTokenCallback whenever fail is truthy or the
  success payload has an "Entity" entry.
\<close>

theorem prints_one:
  "printed (trace (state_of (loginCallback success fail st))) =
     printed (trace st) @ [if truthy fail then fail else success] \<and>
   printed (trace (state_of (entityObjectCallback success fail st))) =
     printed (trace st) @ [if truthy fail then fail else success] \<and>
   printed (trace (state_of (titleDataReqCallback success fail st))) =
     printed (trace st) @ [if truthy fail then fail else success] \<and>
   (truthy fail \<or> (\<exists>x. getitem success ''Entity'' = Inr x) \<longrightarrow>
    printed (trace (state_of (entityTokenCallback success fail st))) =
      printed (trace st) @ [if truthy fail then fail else success])"
  by (auto simp add: loginCallback_eq entityObjectCallback_eq titleDataReqCallback_eq
        entityTokenCallback_eq emit_def printed_append)

theorem prints_one_witness:
  "(truthy PyNone \<or> (\<exists>x. getitem (PyDict [(''Entity'', PyStr ''E1'')]) ''Entity'' = Inr x)) \<and>
   printed (trace (state_of
     (entityTokenCallback (PyDict [(''Entity'', PyStr ''E1'')]) PyNone (init Map.empty)))) =
     [PyDict [(''Entity'', PyStr ''E1'')]]"
  using prints_one [of "PyDict [(''Entity'', PyStr ''E1'')]" PyNone "init Map.empty"]
  by (simp add: init_def)

text \<open>
  Claim C9 as stated says that a success payload without an "Entity" key, for example
  None, makes entityTokenCallback raise a KeyError. Subscripting None raises a
  TypeError.
\<close>

theorem missing_entity_counterexample:
  "\<not> truthy PyNone \<and> getitem PyNone ''Entity'' = Inl TypeError \<and>
   entityTokenCallback PyNone PyNone (init Map.empty) = Err TypeError (init Map.empty) \<and>
   entityTokenCallback PyNone PyNone (init Map.empty) \<noteq>
     Err (KeyError ''Entity'') (init Map.empty)"
  by (simp add: entityTokenCallback_eq)

text \<open>
  Claim C9, amended. If entityTokenCallback is invoked with a falsy fail and a success
  payload from which "Entity" cannot be read, it raises before printing anything and
  before assigning EntityKey (the state is the one it was called in): a KeyError when
  the payload is a dictionary without that key, a TypeError when the payload is not a
  dictionary (None, for example).
\<close>

theorem missing_entity:
  assumes "\<not> truthy fail" and "\<forall>x. getitem success ''Entity'' \<noteq> Inr x"
  shows "\<exists>e. entityTokenCallback success fail st = Err e st \<and>
             (e = KeyError ''Entity'' \<or> e = TypeError) \<and>
             (e = KeyError ''Entity'' \<longleftrightarrow> (\<exists>d. success = PyDict d))"
  using assms
  by (cases success) (auto simp add: entityTokenCallback_eq split: option.splits)

theorem missing_entity_witness:
  "\<not> truthy PyNone \<and> (\<forall>x. getitem (PyDict []) ''Entity'' \<noteq> Inr x) \<and>
   entityTokenCallback (PyDict []) PyNone (init Map.empty) =
     Err (KeyError ''Entity'') (init Map.empty)"
proof -
  have h1: "\<not> truthy PyNone" by simp
  have h2: "\<forall>x. getitem (PyDict []) ''Entity'' \<noteq> Inr x" by simp
  from missing_entity [OF h1 h2, of "init Map.empty"] h1 h2 show ?thesis by auto
qed

section \<open>The run of the script\<close>

text \<open>
  In the theorems of this section \<open>st\<close> is the state in which a run of the script ends,
  normally or with an exception, for any settings module, any behaviour of the vendor
  and any initial contents of \<^verbatim>\<open>PlayFabSettings\<close>. The number \<open>ncalls st\<close> of API
  calls made tells how far the run got.
\<close>

text \<open>
  Claim C8. Two of the request dictionaries the script constructs are never passed to
  any call: no API call of a run receives the object bound to eoRequest or the one bound
  to titleDataRequest2. The first GetObjects call (the third call) is made with the
  object bound to etRequest, which is not the one bound to eoRequest just before it; the
  final GetTitleData call (the sixth call) is made with the object bound to
  titleDataRequest, which is not the one bound to titleDataRequest2 just before it.
\<close>

theorem unused_requests:
  assumes st: "st = state_of (run ts v s0)"
  shows "(\<forall>a f. globals st eoRequest = Some (Ref a) \<longrightarrow> ApiCall f (Ref a) \<notin> set (trace st)) \<and>
         (\<forall>a f. globals st titleDataRequest2 = Some (Ref a) \<longrightarrow>
                ApiCall f (Ref a) \<notin> set (trace st)) \<and>
         (3 \<le> ncalls st \<longrightarrow>
            (\<exists>r. api_calls (trace st) ! 2 = ApiCall GetObjects r \<and>
                 globals st etRequest = Some r \<and>
                 globals st eoRequest \<noteq> None \<and> globals st eoRequest \<noteq> Some r)) \<and>
         (6 \<le> ncalls st \<longrightarrow>
            (\<exists>r. api_calls (trace st) ! 5 = ApiCall GetTitleData r \<and>
                 globals st titleDataRequest = Some r \<and>
                 globals st titleDataRequest2 \<noteq> None \<and>
                 globals st titleDataRequest2 \<noteq> Some r))"
  unfolding st
proof (intro conjI allI impI)
  let ?st = "state_of (run ts v s0)"
  fix a f assume "globals ?st eoRequest = Some (Ref a)"
  with requests_run(1) [of ts v s0] have "a = 2" by simp
  moreover have "ApiCall f (Ref 2) \<notin> set (api_calls (trace ?st))"
    unfolding api_calls_run by (auto dest: in_set_takeD)
  ultimately show "ApiCall f (Ref a) \<notin> set (trace ?st)" by (simp add: not_called)
next
  let ?st = "state_of (run ts v s0)"
  fix a f assume "globals ?st titleDataRequest2 = Some (Ref a)"
  with requests_run(2) [of ts v s0] have "a = 5" by simp
  moreover have "ApiCall f (Ref 5) \<notin> set (api_calls (trace ?st))"
    unfolding api_calls_run by (auto dest: in_set_takeD)
  ultimately show "ApiCall f (Ref a) \<notin> set (trace ?st)" by (simp add: not_called)
next
  let ?st = "state_of (run ts v s0)"
  assume "3 \<le> ncalls ?st"
  then show "\<exists>r. api_calls (trace ?st) ! 2 = ApiCall GetObjects r \<and>
       globals ?st etRequest = Some r \<and>
       globals ?st eoRequest \<noteq> None \<and> globals ?st eoRequest \<noteq> Some r"
    using requests_run(3) [of ts v s0] unfolding api_calls_run by simp
next
  let ?st = "state_of (run ts v s0)"
  assume "6 \<le> ncalls ?st"
  then show "\<exists>r. api_calls (trace ?st) ! 5 = ApiCall GetTitleData r \<and>
       globals ?st titleDataRequest = Some r \<and>
       globals ?st titleDataRequest2 \<noteq> None \<and> globals ?st titleDataRequest2 \<noteq> Some r"
    using requests_run(4) [of ts v s0] unfolding api_calls_run by simp
qed


theorem unused_requests_witness:
  "globals (state_of (run ts0 vendor_ok Map.empty)) eoRequest = Some (Ref 2) \<and>
   globals (state_of (run ts0 vendor_ok Map.empty)) titleDataRequest2 = Some (Ref 5) \<and>
   6 \<le> ncalls (state_of (run ts0 vendor_ok Map.empty)) \<and>
   ApiCall GetObjects (Ref 2) \<notin> set (trace (state_of (run ts0 vendor_ok Map.empty))) \<and>
   ApiCall GetTitleData (Ref 5) \<notin> set (trace (state_of (run ts0 vendor_ok Map.empty))) \<and>
   api_calls (trace (state_of (run ts0 vendor_ok Map.empty))) ! 2 = ApiCall GetObjects (Ref 1) \<and>
   api_calls (trace (state_of (run ts0 vendor_ok Map.empty))) ! 5 = ApiCall GetTitleData (Ref 4)"
  using unused_requests [of "state_of (run ts0 vendor_ok Map.empty)" ts0 vendor_ok Map.empty]
  by (simp add: run_vendor_ok requests_S)

text \<open>
  Claim C2. When entityTokenCallback is invoked with a falsy fail and the success payload
  has an "Entity" entry, EntityKey is bound to that entry afterwards. In a run that
  reaches the second GetObjects call (the fourth call), the request passed to that call
  is the dictionary bound to eoRequest2, its only item is "Entity", and the item's value
  is the value EntityKey is bound to: the "Entity" entry of a success payload the vendor
  gave entityTokenCallback, with a falsy fail, during the GetEntityToken call. And the
  run does reach that call with that value: when the first three calls return and the
  GetEntityToken call invokes its callback once, with a falsy fail and a success payload
  whose "Entity" entry is \<open>key\<close>, the fourth call is made, with the dictionary bound to
  eoRequest2, whose only item is "Entity" with the value \<open>key\<close>.
\<close>

theorem entity_key_reused:
  assumes st: "st = state_of (run ts v s0)"
  shows "(\<not> truthy fail \<longrightarrow> getitem success ''Entity'' = Inr x \<longrightarrow>
            globals (state_of (entityTokenCallback success fail st')) EntityKey =
              Some (Val x)) \<and>
         (4 \<le> ncalls st \<longrightarrow>
            (\<exists>a y s f. api_calls (trace st) ! 3 = ApiCall GetObjects (Ref a) \<and>
               globals st eoRequest2 = Some (Ref a) \<and>
               heap st a = Some [(''Entity'', Val y)] \<and>
               globals st EntityKey = Some (Val y) \<and>
               (s, f) \<in> set (invocations (v 1)) \<and> \<not> truthy f \<and>
               getitem s ''Entity'' = Inr y)) \<and>
         (raises (v 0) = None \<and> raises (v 1) = None \<and> raises (v 2) = None \<and>
          invocations (v 1) = [(payload, failure)] \<and> \<not> truthy failure \<and>
          getitem payload ''Entity'' = Inr key \<longrightarrow>
            4 \<le> ncalls st \<and>
            api_calls (trace st) ! 3 = ApiCall GetObjects (Ref 3) \<and>
            globals st eoRequest2 = Some (Ref 3) \<and>
            heap st 3 = Some [(''Entity'', Val key)] \<and>
            globals st EntityKey = Some (Val key))"
  unfolding st
proof (intro conjI; intro impI)
  assume "\<not> truthy fail" and "getitem success ''Entity'' = Inr x"
  then show "globals (state_of (entityTokenCallback success fail st')) EntityKey =
      Some (Val x)"
    by (simp add: entityTokenCallback_eq emit_def)
next
  let ?st = "state_of (run ts v s0)"
  assume four: "4 \<le> ncalls ?st"
  from reached_four [OF four] obtain k where
    k: "et_key (catches (v 1)) (invocations (v 1)) = Some k"
    and facts: "globals ?st eoRequest2 = Some (Ref 3)"
      "heap ?st 3 = Some [(''Entity'', Val k)]" "globals ?st EntityKey = Some (Val k)"
    by blast
  from et_key_Some [OF k] obtain s f where
    sf: "(s, f) \<in> set (invocations (v 1))" "\<not> truthy f" "getitem s ''Entity'' = Inr k"
    by blast
  from four have "api_calls (trace ?st) ! 3 = ApiCall GetObjects (Ref 3)"
    unfolding api_calls_run by simp
  with facts sf show "\<exists>a y s f. api_calls (trace ?st) ! 3 = ApiCall GetObjects (Ref a) \<and>
      globals ?st eoRequest2 = Some (Ref a) \<and>
      heap ?st a = Some [(''Entity'', Val y)] \<and>
      globals ?st EntityKey = Some (Val y) \<and>
      (s, f) \<in> set (invocations (v 1)) \<and> \<not> truthy f \<and> getitem s ''Entity'' = Inr y"
    by blast
next
  let ?st = "state_of (run ts v s0)"
  assume "raises (v 0) = None \<and> raises (v 1) = None \<and> raises (v 2) = None \<and>
      invocations (v 1) = [(payload, failure)] \<and> \<not> truthy failure \<and>
      getitem payload ''Entity'' = Inr key"
  then show "4 \<le> ncalls ?st \<and>
      api_calls (trace ?st) ! 3 = ApiCall GetObjects (Ref 3) \<and>
      globals ?st eoRequest2 = Some (Ref 3) \<and>
      heap ?st 3 = Some [(''Entity'', Val key)] \<and>
      globals ?st EntityKey = Some (Val key)"
    by (intro fourth_call [of v payload failure key ts s0]) simp_all
qed

theorem entity_key_reused_witness:
  "\<not> truthy PyNone \<and> getitem (PyDict [(''Entity'', PyStr ''E1'')]) ''Entity'' = Inr (PyStr ''E1'') \<and>
   globals (state_of (entityTokenCallback (PyDict [(''Entity'', PyStr ''E1'')]) PyNone
      (init Map.empty))) EntityKey = Some (Val (PyStr ''E1'')) \<and>
   raises (vendor_ok 0) = None \<and> raises (vendor_ok 1) = None \<and> raises (vendor_ok 2) = None \<and>
   invocations (vendor_ok 1) = [(PyDict [(''Entity'', PyStr ''E1'')], PyNone)] \<and>
   4 \<le> ncalls (state_of (run ts0 vendor_ok Map.empty)) \<and>
   api_calls (trace (state_of (run ts0 vendor_ok Map.empty))) ! 3 = ApiCall GetObjects (Ref 3) \<and>
   globals (state_of (run ts0 vendor_ok Map.empty)) eoRequest2 = Some (Ref 3) \<and>
   heap (state_of (run ts0 vendor_ok Map.empty)) 3 = Some [(''Entity'', Val (PyStr ''E1''))] \<and>
   globals (state_of (run ts0 vendor_ok Map.empty)) EntityKey = Some (Val (PyStr ''E1''))"
proof -
  have h: "\<not> truthy PyNone"
    "getitem (PyDict [(''Entity'', PyStr ''E1'')]) ''Entity'' = Inr (PyStr ''E1'')"
    "raises (vendor_ok 0) = None" "raises (vendor_ok 1) = None" "raises (vendor_ok 2) = None"
    "invocations (vendor_ok 1) = [(PyDict [(''Entity'', PyStr ''E1'')], PyNone)]"
    by (simp_all add: vendor_ok_def)
  from entity_key_reused [where st = "state_of (run ts0 vendor_ok Map.empty)" and ts = ts0
      and v = vendor_ok and ?s0.0 = Map.empty and fail = PyNone
      and success = "PyDict [(''Entity'', PyStr ''E1'')]" and x = "PyStr ''E1''"
      and st' = "init Map.empty" and payload = "PyDict [(''Entity'', PyStr ''E1'')]"
      and failure = PyNone and key = "PyStr ''E1''", OF refl] h
  show ?thesis by blast
qed

text \<open>
  Claim C10. The construction of eoRequest2 succeeds only if entityTokenCallback was
  invoked before, during the GetEntityToken call, with a falsy fail and a success payload
  that has an "Entity" entry. If EntityKey is unbound when the script evaluates it (the
  GetEntityToken call reported a failure, for example), the evaluation raises
  NameError: the run ends there, after three calls, with eoRequest2 unbound and without
  the remaining calls.
\<close>

theorem entity_key_unbound:
  assumes st: "st = state_of (run ts v s0)"
  shows "(globals st eoRequest2 \<noteq> None \<longrightarrow>
            (\<exists>s f x. (s, f) \<in> set (invocations (v 1)) \<and> \<not> truthy f \<and>
               getitem s ''Entity'' = Inr x)) \<and>
         (GlobalRead EntityKey \<in> set (trace st) \<and> globals st EntityKey = None \<longrightarrow>
            run ts v s0 = Err (NameError EntityKey) st \<and> ncalls st = 3 \<and>
            last (trace st) = GlobalRead EntityKey \<and> globals st eoRequest2 = None)"
  unfolding st
proof (rule conjI; rule impI)
  assume "globals (state_of (run ts v s0)) eoRequest2 \<noteq> None"
  from bound_eoRequest2 [OF this] obtain k where
    "et_key (catches (v 1)) (invocations (v 1)) = Some k" by blast
  from et_key_Some [OF this] show "\<exists>s f x. (s, f) \<in> set (invocations (v 1)) \<and>
      \<not> truthy f \<and> getitem s ''Entity'' = Inr x"
    by blast
next
  assume a: "GlobalRead EntityKey \<in> set (trace (state_of (run ts v s0))) \<and>
    globals (state_of (run ts v s0)) EntityKey = None"
  have r: "run ts v s0 =
      Err (NameError EntityKey) (emit (GlobalRead EntityKey) (S3 ts v s0))"
    using a by (intro read_unbound) simp_all
  have "last (trace (emit (GlobalRead EntityKey) (S3 ts v s0))) = GlobalRead EntityKey"
    by (simp add: emit_def)
  then show "run ts v s0 = Err (NameError EntityKey) (state_of (run ts v s0)) \<and>
    ncalls (state_of (run ts v s0)) = 3 \<and>
    last (trace (state_of (run ts v s0))) = GlobalRead EntityKey \<and>
    globals (state_of (run ts v s0)) eoRequest2 = None"
    unfolding r by (simp add: requests_S)
qed

theorem entity_key_unbound_witness:
  "GlobalRead EntityKey \<in> set (trace (state_of (run ts0 vendor_denied Map.empty))) \<and>
   globals (state_of (run ts0 vendor_denied Map.empty)) EntityKey = None \<and>
   run ts0 vendor_denied Map.empty =
     Err (NameError EntityKey) (state_of (run ts0 vendor_denied Map.empty)) \<and>
   ncalls (state_of (run ts0 vendor_denied Map.empty)) = 3 \<and>
   globals (state_of (run ts0 vendor_ok Map.empty)) eoRequest2 \<noteq> None \<and>
   (\<exists>s f x. (s, f) \<in> set (invocations (vendor_ok 1)) \<and> \<not> truthy f \<and>
      getitem s ''Entity'' = Inr x)"
proof -
  have h1: "GlobalRead EntityKey \<in> set (trace (state_of (run ts0 vendor_denied Map.empty)))"
    by (simp add: run_vendor_denied emit_def)
  have h2: "globals (state_of (run ts0 vendor_denied Map.empty)) EntityKey = None"
    by (simp add: run_vendor_denied requests_S vendor_denied_def)
  have h3: "globals (state_of (run ts0 vendor_ok Map.empty)) eoRequest2 \<noteq> None"
    by (simp add: run_vendor_ok requests_S)
  from entity_key_unbound [of "state_of (run ts0 vendor_denied Map.empty)" ts0 vendor_denied
      Map.empty] h1 h2
    entity_key_unbound [of "state_of (run ts0 vendor_ok Map.empty)" ts0 vendor_ok Map.empty] h3
  show ?thesis by blast
qed

text \<open>
  Claim C6 as stated says that every configuration assignment precedes every API call.
  In a run where every call succeeds, the assignments to \<^verbatim>\<open>PlayFabSettings\<close> and the API
  calls do not come in that order: the assignment of the developer secret key comes after
  five calls.
\<close>

theorem configuration_first_counterexample:
  "config_and_calls (trace (state_of (run ts0 vendor_ok Map.empty))) =
     [SettingsWrite ''TitleId'' (PyStr ''6195''),
      ApiCall LoginWithCustomID (Ref 0), ApiCall GetEntityToken (Ref 1),
      ApiCall GetObjects (Ref 1), ApiCall GetObjects (Ref 3), ApiCall GetTitleData (Ref 4),
      SettingsWrite ''DeveloperSecretKey'' (PyStr ''key''),
      ApiCall GetTitleData (Ref 4)] \<and>
   config_and_calls (trace (state_of (run ts0 vendor_ok Map.empty))) \<noteq>
     filter is_SettingsWrite (trace (state_of (run ts0 vendor_ok Map.empty))) @
     filter is_ApiCall (trace (state_of (run ts0 vendor_ok Map.empty)))"
  by (simp add: run_vendor_ok S_defs config_and_calls_def filter_shown filter_et_events ts0_def)

text \<open>
  Claim C6, amended. In the script's top-level execution order the assignment of the
  title identifier precedes every API call; each request dictionary is constructed
  between the calls, just before the call that follows it; the assignment of the
  developer secret key comes after the first five calls (LoginWithCustomID,
  GetEntityToken, GetObjects twice and the guarded GetTitleData) and precedes only the
  final GetTitleData call. The steps of every run are an initial part, not empty, of
  that one sequence.
\<close>

theorem configuration_order:
  "filter is_step (trace (state_of (run ts v s0))) \<noteq> [] \<and>
   prefix (filter is_step (trace (state_of (run ts v s0))))
     [SettingsWrite ''TitleId'' (TitleId ts),
      GlobalWrite request (Ref 0), ApiCall LoginWithCustomID (Ref 0),
      GlobalWrite etRequest (Ref 1), ApiCall GetEntityToken (Ref 1),
      GlobalWrite eoRequest (Ref 2), ApiCall GetObjects (Ref 1),
      GlobalWrite eoRequest2 (Ref 3), ApiCall GetObjects (Ref 3),
      GlobalWrite titleDataRequest (Ref 4), ApiCall GetTitleData (Ref 4),
      SettingsWrite ''DeveloperSecretKey'' (DeveloperSeceretKey ts),
      GlobalWrite titleDataRequest2 (Ref 5), ApiCall GetTitleData (Ref 4)]"
  by (cases rule: run_cases [of v ts s0])
     (simp_all add: S_defs filter_shown filter_et_events)

text \<open>
  Claim C7. The only members of \<^verbatim>\<open>PlayFabSettings\<close> the script touches are TitleId
  (written, and read back once), DeveloperSecretKey (written) and GlobalExceptionLogger
  (invoked): every event of a run that touches \<^verbatim>\<open>PlayFabSettings\<close> is one of these,
  TitleId is written in every run, and every other attribute has at the end of the run
  the value it had at the start.
\<close>

theorem settings_surface:
  assumes st: "st = state_of (run ts v s0)"
  shows "(\<forall>ev \<in> set (trace st). on_settings ev \<longrightarrow>
            ev = SettingsWrite ''TitleId'' (TitleId ts) \<or>
            ev = SettingsRead ''TitleId'' \<or>
            ev = SettingsWrite ''DeveloperSecretKey'' (DeveloperSeceretKey ts) \<or>
            (\<exists>e. ev = SettingsCall ''GlobalExceptionLogger'' e)) \<and>
         SettingsWrite ''TitleId'' (TitleId ts) \<in> set (trace st) \<and>
         (\<forall>a. a \<noteq> ''TitleId'' \<and> a \<noteq> ''DeveloperSecretKey'' \<longrightarrow> settings st a = s0 a)"
  unfolding st
proof (intro conjI ballI allI impI)
  fix ev
  assume "ev \<in> set (trace (state_of (run ts v s0)))" and "on_settings ev"
  then have "ev \<in> set (filter on_settings (trace (state_of (run ts v s0))))" by simp
  with settings_events_run [of ts v s0]
  show "ev = SettingsWrite ''TitleId'' (TitleId ts) \<or>
      ev = SettingsRead ''TitleId'' \<or>
      ev = SettingsWrite ''DeveloperSecretKey'' (DeveloperSeceretKey ts) \<or>
      (\<exists>e. ev = SettingsCall ''GlobalExceptionLogger'' e)"
    by blast
next
  show "SettingsWrite ''TitleId'' (TitleId ts) \<in> set (trace (state_of (run ts v s0)))"
    by (rule title_id_written)
next
  fix a :: string
  assume "a \<noteq> ''TitleId'' \<and> a \<noteq> ''DeveloperSecretKey''"
  then show "settings (state_of (run ts v s0)) a = s0 a"
    by (simp add: settings_frame_run)
qed

theorem settings_surface_witness:
  "SettingsCall ''GlobalExceptionLogger''
     (PlayFabException ''Must have DeveloperSecretKey set to call this method'')
     \<in> set (trace (state_of (run ts0 vendor_nokey settings0))) \<and>
   on_settings (SettingsCall ''GlobalExceptionLogger''
     (PlayFabException ''Must have DeveloperSecretKey set to call this method'')) \<and>
   ''ProductionEnvironmentURL'' \<noteq> ''TitleId'' \<and>
   ''ProductionEnvironmentURL'' \<noteq> ''DeveloperSecretKey'' \<and>
   settings (state_of (run ts0 vendor_nokey settings0)) ''ProductionEnvironmentURL'' =
     Some (PyStr ''.playfabapi.com'') \<and>
   settings (state_of (run ts0 vendor_nokey settings0)) ''DeveloperSecretKey'' =
     Some (PyStr ''key'')"
proof -
  have "SettingsCall ''GlobalExceptionLogger''
     (PlayFabException ''Must have DeveloperSecretKey set to call this method'')
     \<in> set (trace (state_of (run ts0 vendor_nokey settings0)))"
    by (simp add: run_vendor_nokey S6_def handled_def)
  moreover have "settings (state_of (run ts0 vendor_nokey settings0)) ''DeveloperSecretKey'' =
     Some (PyStr ''key'')"
    by (simp add: run_vendor_nokey settings_S ts0_def)
  moreover have "settings0 ''ProductionEnvironmentURL'' = Some (PyStr ''.playfabapi.com'')"
    by (simp add: settings0_def)
  ultimately show ?thesis
    using settings_surface [of "state_of (run ts0 vendor_nokey settings0)" ts0 vendor_nokey
        settings0]
    by simp
qed

text \<open>
  Claim C4. EntityKey is the only global variable a callback writes. loginCallback,
  entityObjectCallback and titleDataReqCallback change nothing but the output: they
  neither read nor write a global. entityTokenCallback does the same on its failure
  branch; on its success branch it either raises, leaving the state as it was, or binds
  EntityKey and prints. In a run, the accesses to EntityKey are the writes made by
  entityTokenCallback followed by at most one read, and by exactly one read when the run
  reaches the second GetObjects call: the one made to construct eoRequest2.
\<close>

theorem global_state_access:
  assumes st: "st = state_of (run ts v s0)"
  shows "loginCallback success fail st' =
           Ok () (st'\<lparr>trace := trace st' @ [Print (if truthy fail then fail else success)]\<rparr>) \<and>
         entityObjectCallback success fail st' =
           Ok () (st'\<lparr>trace := trace st' @ [Print (if truthy fail then fail else success)]\<rparr>) \<and>
         titleDataReqCallback success fail st' =
           Ok () (st'\<lparr>trace := trace st' @ [Print (if truthy fail then fail else success)]\<rparr>) \<and>
         (truthy fail \<longrightarrow>
            entityTokenCallback success fail st' =
              Ok () (st'\<lparr>trace := trace st' @ [Print fail]\<rparr>)) \<and>
         (\<not> truthy fail \<longrightarrow>
            (\<forall>e. getitem success ''Entity'' = Inl e \<longrightarrow>
               entityTokenCallback success fail st' = Err e st') \<and>
            (\<forall>x. getitem success ''Entity'' = Inr x \<longrightarrow>
               entityTokenCallback success fail st' =
                 Ok () (st'\<lparr>globals := (globals st')(EntityKey \<mapsto> Val x),
                            trace := trace st' @
                              [GlobalWrite EntityKey (Val x), Print success]\<rparr>))) \<and>
         (\<exists>ws. (\<forall>ev \<in> set ws. \<exists>b. ev = GlobalWrite EntityKey b) \<and>
            (filter (touches EntityKey) (trace st) = ws \<or>
             filter (touches EntityKey) (trace st) = ws @ [GlobalRead EntityKey]) \<and>
            (4 \<le> ncalls st \<longrightarrow>
             filter (touches EntityKey) (trace st) = ws @ [GlobalRead EntityKey]))"
proof -
  let ?A = "filter (touches EntityKey) (trace (state_of (run ts v s0)))"
  let ?W = "filter (touches EntityKey) (et_events (catches (v 1)) (invocations (v 1)))"
  have plain: "loginCallback success fail st' =
           Ok () (st'\<lparr>trace := trace st' @ [Print (if truthy fail then fail else success)]\<rparr>)"
      "entityObjectCallback success fail st' =
           Ok () (st'\<lparr>trace := trace st' @ [Print (if truthy fail then fail else success)]\<rparr>)"
      "titleDataReqCallback success fail st' =
           Ok () (st'\<lparr>trace := trace st' @ [Print (if truthy fail then fail else success)]\<rparr>)"
    by (simp_all add: loginCallback_eq entityObjectCallback_eq titleDataReqCallback_eq emit_def)
  have token: "truthy fail \<longrightarrow>
            entityTokenCallback success fail st' =
              Ok () (st'\<lparr>trace := trace st' @ [Print fail]\<rparr>)"
      "\<not> truthy fail \<longrightarrow>
            (\<forall>e. getitem success ''Entity'' = Inl e \<longrightarrow>
               entityTokenCallback success fail st' = Err e st') \<and>
            (\<forall>x. getitem success ''Entity'' = Inr x \<longrightarrow>
               entityTokenCallback success fail st' =
                 Ok () (st'\<lparr>globals := (globals st')(EntityKey \<mapsto> Val x),
                            trace := trace st' @
                              [GlobalWrite EntityKey (Val x), Print success]\<rparr>))"
    by (simp_all add: entityTokenCallback_eq emit_def)
  have W: "\<forall>ev \<in> set ?W. \<exists>b. ev = GlobalWrite EntityKey b"
    using writes_only by blast
  from accesses_run [of ts v s0]
  have shape: "?A = [] \<or> ?A = ?W \<or> ?A = ?W @ [GlobalRead EntityKey]"
    and four: "4 \<le> ncalls (state_of (run ts v s0)) \<longrightarrow> ?A = ?W @ [GlobalRead EntityKey]"
    by blast+
  have "\<exists>ws. (\<forall>ev \<in> set ws. \<exists>b. ev = GlobalWrite EntityKey b) \<and>
            (?A = ws \<or> ?A = ws @ [GlobalRead EntityKey]) \<and>
            (4 \<le> ncalls (state_of (run ts v s0)) \<longrightarrow> ?A = ws @ [GlobalRead EntityKey])"
  proof (cases "?A = []")
    case True
    with four have "\<not> 4 \<le> ncalls (state_of (run ts v s0))" by auto
    with True show ?thesis by (intro exI [of _ "[]"]) simp
  next
    case False
    with shape four W show ?thesis by (intro exI [of _ ?W]) auto
  qed
  with plain token show ?thesis unfolding st by blast
qed

theorem global_state_access_witness:
  "truthy (PyStr ''denied'') \<and> \<not> truthy PyNone \<and>
   getitem (PyDict [(''Entity'', PyStr ''E1'')]) ''Entity'' = Inr (PyStr ''E1'') \<and>
   getitem PyNone ''Entity'' = Inl TypeError \<and>
   entityTokenCallback PyNone (PyStr ''denied'') (init Map.empty) =
     Ok () ((init Map.empty)\<lparr>trace := [Print (PyStr ''denied'')]\<rparr>) \<and>
   entityTokenCallback PyNone PyNone (init Map.empty) = Err TypeError (init Map.empty) \<and>
   entityTokenCallback (PyDict [(''Entity'', PyStr ''E1'')]) PyNone (init Map.empty) =
     Ok () ((init Map.empty)\<lparr>globals := [EntityKey \<mapsto> Val (PyStr ''E1'')],
        trace := [GlobalWrite EntityKey (Val (PyStr ''E1'')),
                  Print (PyDict [(''Entity'', PyStr ''E1'')])]\<rparr>) \<and>
   4 \<le> ncalls (state_of (run ts0 vendor_ok Map.empty)) \<and>
   (\<exists>ws. (\<forall>ev \<in> set ws. \<exists>b. ev = GlobalWrite EntityKey b) \<and>
      filter (touches EntityKey) (trace (state_of (run ts0 vendor_ok Map.empty))) =
        ws @ [GlobalRead EntityKey])"
proof -
  let ?st = "state_of (run ts0 vendor_ok Map.empty)"
  have four: "4 \<le> ncalls ?st" by (simp add: run_vendor_ok)
  have h: "truthy (PyStr ''denied'')" "\<not> truthy PyNone"
    "getitem (PyDict [(''Entity'', PyStr ''E1'')]) ''Entity'' = Inr (PyStr ''E1'')"
    "getitem PyNone ''Entity'' = Inl TypeError"
    by simp_all
  from global_state_access [of ?st ts0 vendor_ok Map.empty PyNone "PyStr ''denied''"
      "init Map.empty", OF refl] h(1)
  have c1: "entityTokenCallback PyNone (PyStr ''denied'') (init Map.empty) =
     Ok () ((init Map.empty)\<lparr>trace := [Print (PyStr ''denied'')]\<rparr>)"
    by (simp add: init_def)
  from global_state_access [of ?st ts0 vendor_ok Map.empty PyNone PyNone
      "init Map.empty", OF refl] h(2) h(4)
  have c2: "entityTokenCallback PyNone PyNone (init Map.empty) = Err TypeError (init Map.empty)"
    and ex: "\<exists>ws. (\<forall>ev \<in> set ws. \<exists>b. ev = GlobalWrite EntityKey b) \<and>
      (filter (touches EntityKey) (trace ?st) = ws \<or>
       filter (touches EntityKey) (trace ?st) = ws @ [GlobalRead EntityKey]) \<and>
      (4 \<le> ncalls ?st \<longrightarrow>
       filter (touches EntityKey) (trace ?st) = ws @ [GlobalRead EntityKey])"
    by blast+
  from global_state_access [of ?st ts0 vendor_ok Map.empty
      "PyDict [(''Entity'', PyStr ''E1'')]" PyNone "init Map.empty", OF refl] h(2) h(3)
  have c3: "entityTokenCallback (PyDict [(''Entity'', PyStr ''E1'')]) PyNone (init Map.empty) =
     Ok () ((init Map.empty)\<lparr>globals := (globals (init Map.empty))(EntityKey \<mapsto> Val (PyStr ''E1'')),
        trace := trace (init Map.empty) @ [GlobalWrite EntityKey (Val (PyStr ''E1'')),
                  Print (PyDict [(''Entity'', PyStr ''E1'')])]\<rparr>)"
    by blast
  from ex four have ex': "\<exists>ws. (\<forall>ev \<in> set ws. \<exists>b. ev = GlobalWrite EntityKey b) \<and>
      filter (touches EntityKey) (trace ?st) = ws @ [GlobalRead EntityKey]"
    by blast
  have c3': "entityTokenCallback (PyDict [(''Entity'', PyStr ''E1'')]) PyNone (init Map.empty) =
     Ok () ((init Map.empty)\<lparr>globals := [EntityKey \<mapsto> Val (PyStr ''E1'')],
        trace := [GlobalWrite EntityKey (Val (PyStr ''E1'')),
                  Print (PyDict [(''Entity'', PyStr ''E1'')])]\<rparr>)"
    unfolding c3 by (simp add: init_def)
  from h c1 c2 c3' four ex' show ?thesis by blast
qed

text \<open>
  Claim C3. Exactly one API call site is wrapped in an exception handler, the first
  GetTitleData call (the fifth call). When that call raises a PlayFabException, the
  handler passes the exception to PlayFabSettings.GlobalExceptionLogger; when the logger
  returns the script goes on to the sixth call, and when evaluating the logger call
  raises (the attribute is not set or not callable, or the logger itself raises) the
  run ends there with that exception. Any other exception raised by the fifth call ends
  the run. The logger is invoked with nothing but a PlayFabException raised by the fifth
  call. An exception raised by any other call (the first four and the sixth) ends the
  run at that call. And the calls are made: each of the six calls is made when the calls
  before it return and (from the third call on) the GetEntityToken call has invoked its
  callback once, with a falsy fail and a success payload that has an "Entity" entry.
\<close>

theorem exception_handling:
  assumes st: "st = state_of (run ts v s0)"
  shows "(5 \<le> ncalls st \<and> raises (v 4) = Some e \<and> is_PlayFabException e \<longrightarrow>
            SettingsCall ''GlobalExceptionLogger'' e \<in> set (trace st) \<and>
            (logger_outcome s0 = None \<longrightarrow> ncalls st = 6) \<and>
            (\<forall>ex. logger_outcome s0 = Some ex \<longrightarrow> run ts v s0 = Err ex st \<and> ncalls st = 5)) \<and>
         (5 \<le> ncalls st \<and> raises (v 4) = Some e \<and> \<not> is_PlayFabException e \<longrightarrow>
            run ts v s0 = Err e st \<and> ncalls st = 5) \<and>
         (\<forall>a e'. SettingsCall a e' \<in> set (trace st) \<longrightarrow>
            a = ''GlobalExceptionLogger'' \<and> raises (v 4) = Some e' \<and>
            is_PlayFabException e' \<and> 5 \<le> ncalls st) \<and>
         (k \<in> {0, 1, 2, 3, 5} \<and> k < ncalls st \<and> raises (v k) = Some e \<longrightarrow>
            ncalls st = Suc k \<and> (\<exists>e'. run ts v s0 = Err e' st) \<and>
            (k \<noteq> 1 \<longrightarrow> run ts v s0 = Err e st)) \<and>
         (k \<le> 5 \<and> (\<forall>j<k. raises (v j) = None) \<and>
          (2 \<le> k \<longrightarrow> invocations (v 1) = [(s, f)] \<and> \<not> truthy f \<and>
                     getitem s ''Entity'' = Inr x) \<longrightarrow>
            k < ncalls st \<and>
            (k = 4 \<longrightarrow> api_calls (trace st) ! 4 = ApiCall GetTitleData (Ref 4)))"
  unfolding st
proof (intro conjI allI; rule impI)
  let ?st = "state_of (run ts v s0)"
  assume a: "5 \<le> ncalls ?st \<and> raises (v 4) = Some e \<and> is_PlayFabException e"
  then have "filter is_SettingsCall (trace ?st) = [SettingsCall ''GlobalExceptionLogger'' e]"
    by (simp add: logger_calls_run)
  then have "SettingsCall ''GlobalExceptionLogger'' e \<in> set (filter is_SettingsCall (trace ?st))"
    by simp
  then have 1: "SettingsCall ''GlobalExceptionLogger'' e \<in> set (trace ?st)"
    by simp
  have 2: "ncalls ?st = 6" if "logger_outcome s0 = None"
    using a that by (intro handled_continues [of ts v s0 e]) simp_all
  have 3: "run ts v s0 = Err ex ?st \<and> ncalls ?st = 5" if "logger_outcome s0 = Some ex" for ex
    using a that by (intro logger_stops [of ts v s0 e ex]) simp_all
  from 1 2 3
  show "SettingsCall ''GlobalExceptionLogger'' e \<in> set (trace ?st) \<and>
      (logger_outcome s0 = None \<longrightarrow> ncalls ?st = 6) \<and>
      (\<forall>ex. logger_outcome s0 = Some ex \<longrightarrow> run ts v s0 = Err ex ?st \<and> ncalls ?st = 5)"
    by blast
next
  let ?st = "state_of (run ts v s0)"
  assume "5 \<le> ncalls ?st \<and> raises (v 4) = Some e \<and> \<not> is_PlayFabException e"
  with unhandled_stops [of ts v s0 e]
  show "run ts v s0 = Err e ?st \<and> ncalls ?st = 5" by blast
next
  let ?st = "state_of (run ts v s0)"
  fix a e'
  assume "SettingsCall a e' \<in> set (trace ?st)"
  then have "SettingsCall a e' \<in> set (filter is_SettingsCall (trace ?st))"
    by (rule logger_called)
  then show "a = ''GlobalExceptionLogger'' \<and> raises (v 4) = Some e' \<and>
      is_PlayFabException e' \<and> 5 \<le> ncalls ?st"
    unfolding logger_calls_run by (auto split: option.splits if_splits)
next
  let ?st = "state_of (run ts v s0)"
  assume "k \<in> {0, 1, 2, 3, 5} \<and> k < ncalls ?st \<and> raises (v k) = Some e"
  with other_calls_stop [of k ts v s0 e]
  show "ncalls ?st = Suc k \<and> (\<exists>e'. run ts v s0 = Err e' ?st) \<and>
      (k \<noteq> 1 \<longrightarrow> run ts v s0 = Err e ?st)"
    by blast
next
  let ?st = "state_of (run ts v s0)"
  assume h: "k \<le> 5 \<and> (\<forall>j<k. raises (v j) = None) \<and>
      (2 \<le> k \<longrightarrow> invocations (v 1) = [(s, f)] \<and> \<not> truthy f \<and> getitem s ''Entity'' = Inr x)"
  then have made: "k < ncalls ?st"
    by (intro call_made [of k v s f x ts s0]) simp_all
  then have "api_calls (trace ?st) ! 4 = ApiCall GetTitleData (Ref 4)" if "k = 4"
    using that by (intro fifth_call) simp
  with made
  show "k < ncalls ?st \<and> (k = 4 \<longrightarrow> api_calls (trace ?st) ! 4 = ApiCall GetTitleData (Ref 4))"
    by blast
qed

theorem exception_handling_witness:
  "raises (vendor_nokey 0) = None \<and> raises (vendor_nokey 1) = None \<and>
   raises (vendor_nokey 2) = None \<and> raises (vendor_nokey 3) = None \<and>
   invocations (vendor_nokey 1) = [(PyDict [(''Entity'', PyStr ''E1'')], PyNone)] \<and>
   \<not> truthy PyNone \<and>
   getitem (PyDict [(''Entity'', PyStr ''E1'')]) ''Entity'' = Inr (PyStr ''E1'') \<and>
   raises (vendor_nokey 4) =
     Some (PlayFabException ''Must have DeveloperSecretKey set to call this method'') \<and>
   is_PlayFabException (PlayFabException ''Must have DeveloperSecretKey set to call this method'') \<and>
   logger_outcome settings0 = None \<and>
   api_calls (trace (state_of (run ts0 vendor_nokey settings0))) ! 4 =
     ApiCall GetTitleData (Ref 4) \<and>
   SettingsCall ''GlobalExceptionLogger''
     (PlayFabException ''Must have DeveloperSecretKey set to call this method'')
     \<in> set (trace (state_of (run ts0 vendor_nokey settings0))) \<and>
   ncalls (state_of (run ts0 vendor_nokey settings0)) = 6 \<and>
   logger_outcome Map.empty = Some (AttributeError ''GlobalExceptionLogger'') \<and>
   run ts0 vendor_nokey Map.empty =
     Err (AttributeError ''GlobalExceptionLogger'') (state_of (run ts0 vendor_nokey Map.empty)) \<and>
   ncalls (state_of (run ts0 vendor_nokey Map.empty)) = 5 \<and>
   raises (vendor_timeout 4) = Some (OtherError ''Timeout'') \<and>
   \<not> is_PlayFabException (OtherError ''Timeout'') \<and>
   run ts0 vendor_timeout settings0 =
     Err (OtherError ''Timeout'') (state_of (run ts0 vendor_timeout settings0)) \<and>
   ncalls (state_of (run ts0 vendor_timeout settings0)) = 5 \<and>
   raises (vendor_down 0) = Some (OtherError ''ConnectionError'') \<and>
   run ts0 vendor_down settings0 =
     Err (OtherError ''ConnectionError'') (state_of (run ts0 vendor_down settings0)) \<and>
   ncalls (state_of (run ts0 vendor_down settings0)) = Suc 0 \<and>
   raises (vendor_refused 4) = None \<and>
   raises (vendor_refused 5) = Some (PlayFabException ''Forbidden'') \<and>
   run ts0 vendor_refused settings0 =
     Err (PlayFabException ''Forbidden'') (state_of (run ts0 vendor_refused settings0)) \<and>
   ncalls (state_of (run ts0 vendor_refused settings0)) = Suc 5"
proof -
  let ?e1 = "PlayFabException ''Must have DeveloperSecretKey set to call this method''"
  let ?e2 = "OtherError ''Timeout''"
  let ?e3 = "OtherError ''ConnectionError''"
  let ?e4 = "PlayFabException ''Forbidden''"
  let ?p = "PyDict [(''Entity'', PyStr ''E1'')]"
  let ?n = "state_of (run ts0 vendor_nokey settings0)"
  let ?a = "state_of (run ts0 vendor_nokey Map.empty)"
  let ?t = "state_of (run ts0 vendor_timeout settings0)"
  let ?d = "state_of (run ts0 vendor_down settings0)"
  let ?r = "state_of (run ts0 vendor_refused settings0)"
  have p: "\<not> truthy PyNone" "getitem ?p ''Entity'' = Inr (PyStr ''E1'')"
    by simp_all
  have lo: "logger_outcome settings0 = None"
    "logger_outcome Map.empty = Some (AttributeError ''GlobalExceptionLogger'')"
    by (simp_all add: logger_outcome_def settings0_def)
  have n: "raises (vendor_nokey 0) = None" "raises (vendor_nokey 1) = None"
    "raises (vendor_nokey 2) = None" "raises (vendor_nokey 3) = None"
    "invocations (vendor_nokey 1) = [(?p, PyNone)]"
    "raises (vendor_nokey 4) = Some ?e1" "is_PlayFabException ?e1"
    by (simp_all add: vendor_nokey_def vendor_ok_def)
  have n4: "(4::nat) \<le> 5" "\<forall>j<4. raises (vendor_nokey j) = None"
    by (simp_all add: vendor_nokey_def vendor_ok_def)
  have t: "raises (vendor_timeout 4) = Some ?e2" "\<not> is_PlayFabException ?e2"
    "invocations (vendor_timeout 1) = [(?p, PyNone)]"
    "\<forall>j<4. raises (vendor_timeout j) = None"
    by (simp_all add: vendor_timeout_def vendor_ok_def)
  have d: "raises (vendor_down 0) = Some ?e3" "(0::nat) \<in> {0, 1, 2, 3, 5}" "(0::nat) \<le> 5"
    "\<forall>j<0. raises (vendor_down j) = None" "\<not> 2 \<le> (0::nat)" "(0::nat) \<noteq> 1"
    by (simp_all add: vendor_down_def)
  have r: "raises (vendor_refused 4) = None" "raises (vendor_refused 5) = Some ?e4"
    "(5::nat) \<in> {0, 1, 2, 3, 5}" "(5::nat) \<le> 5" "(5::nat) \<noteq> 1"
    "invocations (vendor_refused 1) = [(?p, PyNone)]"
    "\<forall>j<5. raises (vendor_refused j) = None"
    by (simp_all add: vendor_refused_def vendor_ok_def)
  have hn: "(4::nat) \<le> 5 \<and> (\<forall>j<4. raises (vendor_nokey j) = None) \<and>
      (2 \<le> (4::nat) \<longrightarrow> invocations (vendor_nokey 1) = [(?p, PyNone)] \<and> \<not> truthy PyNone \<and>
         getitem ?p ''Entity'' = Inr (PyStr ''E1''))"
    using n4 n(5) p by simp
  have ht: "(4::nat) \<le> 5 \<and> (\<forall>j<4. raises (vendor_timeout j) = None) \<and>
      (2 \<le> (4::nat) \<longrightarrow> invocations (vendor_timeout 1) = [(?p, PyNone)] \<and> \<not> truthy PyNone \<and>
         getitem ?p ''Entity'' = Inr (PyStr ''E1''))"
    using t(3,4) p by simp
  have hd: "(0::nat) \<le> 5 \<and> (\<forall>j<0. raises (vendor_down j) = None) \<and>
      (2 \<le> (0::nat) \<longrightarrow> invocations (vendor_down 1) = [(?p, PyNone)] \<and> \<not> truthy PyNone \<and>
         getitem ?p ''Entity'' = Inr (PyStr ''E1''))"
    by simp
  have hr: "(5::nat) \<le> 5 \<and> (\<forall>j<5. raises (vendor_refused j) = None) \<and>
      (2 \<le> (5::nat) \<longrightarrow> invocations (vendor_refused 1) = [(?p, PyNone)] \<and> \<not> truthy PyNone \<and>
         getitem ?p ''Entity'' = Inr (PyStr ''E1''))"
    using r(6,7) p by simp
  note N = exception_handling [where st = ?n and ts = ts0 and v = vendor_nokey
      and ?s0.0 = settings0 and e = ?e1 and k = 4 and s = ?p and f = PyNone
      and x = "PyStr ''E1''", OF refl]
  note N5 = N [THEN conjunct2, THEN conjunct2, THEN conjunct2, THEN conjunct2, THEN mp, OF hn]
  from N5 have n5: "4 < ncalls ?n" "api_calls (trace ?n) ! 4 = ApiCall GetTitleData (Ref 4)"
    by simp_all
  then have "5 \<le> ncalls ?n \<and> raises (vendor_nokey 4) = Some ?e1 \<and> is_PlayFabException ?e1"
    using n(6) by simp
  note N1 = N [THEN conjunct1, THEN mp, OF this]
  from N1 lo(1) have n6: "SettingsCall ''GlobalExceptionLogger'' ?e1 \<in> set (trace ?n)"
    "ncalls ?n = 6"
    by simp_all
  note A = exception_handling [where st = ?a and ts = ts0 and v = vendor_nokey
      and ?s0.0 = Map.empty and e = ?e1 and k = 4 and s = ?p and f = PyNone
      and x = "PyStr ''E1''", OF refl]
  note A5 = A [THEN conjunct2, THEN conjunct2, THEN conjunct2, THEN conjunct2, THEN mp, OF hn]
  from A5 have "5 \<le> ncalls ?a \<and> raises (vendor_nokey 4) = Some ?e1 \<and> is_PlayFabException ?e1"
    using n(6) by simp
  note A1 = A [THEN conjunct1, THEN mp, OF this]
  from A1 lo(2)
  have a5: "run ts0 vendor_nokey Map.empty = Err (AttributeError ''GlobalExceptionLogger'') ?a"
    "ncalls ?a = 5"
    by simp_all
  note T = exception_handling [where st = ?t and ts = ts0 and v = vendor_timeout
      and ?s0.0 = settings0 and e = ?e2 and k = 4 and s = ?p and f = PyNone
      and x = "PyStr ''E1''", OF refl]
  note T5 = T [THEN conjunct2, THEN conjunct2, THEN conjunct2, THEN conjunct2, THEN mp, OF ht]
  from T5 have "5 \<le> ncalls ?t \<and> raises (vendor_timeout 4) = Some ?e2 \<and> \<not> is_PlayFabException ?e2"
    using t(1) by simp
  note T2 = T [THEN conjunct2, THEN conjunct1, THEN mp, OF this]
  from T2 have t5: "run ts0 vendor_timeout settings0 = Err ?e2 ?t" "ncalls ?t = 5"
    by simp_all
  note D = exception_handling [where st = ?d and ts = ts0 and v = vendor_down
      and ?s0.0 = settings0 and e = ?e3 and k = 0 and s = ?p and f = PyNone
      and x = "PyStr ''E1''", OF refl]
  note D5 = D [THEN conjunct2, THEN conjunct2, THEN conjunct2, THEN conjunct2, THEN mp, OF hd]
  from D5 have "(0::nat) \<in> {0, 1, 2, 3, 5} \<and> 0 < ncalls ?d \<and> raises (vendor_down 0) = Some ?e3"
    using d(1) by simp
  note D4 = D [THEN conjunct2, THEN conjunct2, THEN conjunct2, THEN conjunct1, THEN mp, OF this]
  from D4 have d1: "run ts0 vendor_down settings0 = Err ?e3 ?d" "ncalls ?d = Suc 0"
    by simp_all
  note R = exception_handling [where st = ?r and ts = ts0 and v = vendor_refused
      and ?s0.0 = settings0 and e = ?e4 and k = 5 and s = ?p and f = PyNone
      and x = "PyStr ''E1''", OF refl]
  note R5 = R [THEN conjunct2, THEN conjunct2, THEN conjunct2, THEN conjunct2, THEN mp, OF hr]
  from R5 have "(5::nat) \<in> {0, 1, 2, 3, 5} \<and> 5 < ncalls ?r \<and> raises (vendor_refused 5) = Some ?e4"
    using r(2) by simp
  note R4 = R [THEN conjunct2, THEN conjunct2, THEN conjunct2, THEN conjunct1, THEN mp, OF this]
  from R4 have r6: "run ts0 vendor_refused settings0 = Err ?e4 ?r" "ncalls ?r = Suc 5"
    by simp_all
  show ?thesis by (intro conjI p lo n n5 n6 a5 t(1,2) d(1) d1 t5 r(1,2) r6)
qed

end
